theory Spec2Isabelle
  imports Main
begin

section \<open>The channel update protocol: data model\<close>

text \<open>
  The protocol module (\<^verbatim>\<open>outbound\<close>, \<^verbatim>\<open>inbound\<close>, \<^verbatim>\<open>processChannelMessage\<close>) is embedded
  function by function. Field names are the source's, except where two types share a field
  name or where the source uses the name for a variable as well:
  \<^item> \<^verbatim>\<open>ChannelState.channelAddress\<close> is \<open>stateChannelAddress\<close>, \<^verbatim>\<open>ChannelUpdate.type\<close> is
    \<open>updateType\<close>;
  \<^item> the fields of a \<^verbatim>\<open>ChannelUpdateError\<close> (\<^verbatim>\<open>message\<close>, \<^verbatim>\<open>update\<close>, \<^verbatim>\<open>state\<close> and the
    fourth constructor argument) are \<open>errMessage\<close>, \<open>errUpdate\<close>, \<open>errState\<close>, \<open>errContext\<close>;
  \<^item> the fields of a message (\<^verbatim>\<open>from\<close>, \<^verbatim>\<open>data\<close>, \<^verbatim>\<open>error\<close>) are \<open>msgFrom\<close>, \<open>msgData\<close>,
    \<open>msgError\<close>, and those of its data (\<^verbatim>\<open>update\<close>, \<^verbatim>\<open>latestUpdate\<close>) are \<open>dataUpdate\<close>,
    \<open>dataLatestUpdate\<close>.
  A value that may be \<^verbatim>\<open>undefined\<close> is an \<open>option\<close>. Nonces are compared through
  \<^verbatim>\<open>BigNumber\<close>, which is unbounded and signed: they are \<open>int\<close>.
\<close>

type_synonym address = string
type_synonym identity = string
type_synonym signature = string

text \<open>
  Modelled from the spec: \<^verbatim>\<open>MultisigCommitment\<close> is declared outside the sources. It carries
  an ordered list of signatures over a hash of its update; \<^verbatim>\<open>getHash()\<close> reads the hash
  and \<^verbatim>\<open>addSignature(sig)\<close> gives the commitment with the signature attached. Updates
  are immutable values: \<^verbatim>\<open>addSignature\<close> leaves the commitment it is called on as it was.
\<close>

record MultisigCommitment =
  signatures :: "signature list"
  commitmentHash :: string

definition getHash :: "MultisigCommitment \<Rightarrow> string" where
  "getHash c = commitmentHash c"

definition addSignature :: "MultisigCommitment \<Rightarrow> signature \<Rightarrow> MultisigCommitment" where
  "addSignature c sig = c\<lparr>signatures := signatures c @ [sig]\<rparr>"

datatype UpdateType = Setup | Other string

record ChannelUpdate =
  channelAddress :: address
  nonce :: int
  counterpartyPublicIdentifier :: identity
  updateType :: UpdateType
  commitment :: MultisigCommitment

record ChannelState =
  stateChannelAddress :: address
  participants :: "identity list"
  chainId :: nat
  latestNonce :: int
  latestUpdate :: "ChannelUpdate option"

text \<open>The reasons of \<^verbatim>\<open>ChannelUpdateError.reasons\<close> that the protocol module names.\<close>

datatype reason =
    ChannelNotFound
  | BadSignatures
  | StaleUpdateNonce
  | StaleChannelNonce
  | StaleChannelNonceNoUpdate
  | applyUpdateFailed
  | SaveChannelFailed
  | MessageFailed

text \<open>
  The optional fourth argument of \<^verbatim>\<open>new ChannelUpdateError(reason, update, state, context)\<close>:
  the updates it may name. The free text of a caught exception (\<^verbatim>\<open>error: e.message\<close>,
  \<^verbatim>\<open>stack\<close>) is not modelled.
\<close>

record ErrorContext =
  ctxCounterpartyLatestUpdate :: "ChannelUpdate option"
  ctxRequestedUpdate :: "ChannelUpdate option"

record ChannelUpdateError =
  errMessage :: reason
  errUpdate :: "ChannelUpdate option"
  errState :: "ChannelState option"
  errContext :: "ErrorContext option"

record ChannelMessageData =
  dataUpdate :: ChannelUpdate
  dataLatestUpdate :: "ChannelUpdate option"


section \<open>The capabilities the protocol consumes\<close>

text \<open>What is handed to \<^verbatim>\<open>messagingService.send\<close>: a channel message or an error.\<close>

datatype payload =
    ChannelPayload ChannelUpdate "ChannelUpdate option"
  | ErrorPayload ChannelUpdateError

text \<open>
  The externals are parameters of the model. A call either completes or rejects; a
  rejection is an \<^verbatim>\<open>Error\<close>, whose message is a string, so that the source's
  \<^verbatim>\<open>typeof newState === "string"\<close> holds exactly when \<^verbatim>\<open>applyUpdate\<close> threw. The message
  may be empty: \<^verbatim>\<open>outbound\<close> tests \<^verbatim>\<open>if (error)\<close> on the message of a rejected save, and
  the empty string is falsy.
  \<^item> \<open>applyUpdate\<close>: the imported \<^verbatim>\<open>applyUpdate(update, state)\<close>; \<open>None\<close> when it throws.
  \<^item> \<open>assertSignatures\<close>: \<^verbatim>\<open>commitment.assertSignatures()\<close>; \<open>False\<close> when it throws.
  \<^item> \<open>saveRejects\<close>: whether \<^verbatim>\<open>storeService.saveChannelState(state)\<close> rejects.
  \<^item> \<open>saveErrorMessage\<close>: the \<^verbatim>\<open>message\<close> of the \<^verbatim>\<open>Error\<close> that a rejecting save of the state
    rejects with.
  \<^item> \<open>sendRejects\<close>: whether \<^verbatim>\<open>messagingService.send(to, payload)\<close> rejects, for a send
    that the inbound handler awaits. (For a send of \<^verbatim>\<open>outbound\<close>, which is not awaited, the
    rejection is one of the things that can happen to the pending attempt.)
  Reading the store, the signer (\<^verbatim>\<open>signMessage\<close>, \<^verbatim>\<open>provider.getNetwork\<close>), \<^verbatim>\<open>getHash\<close>,
  \<^verbatim>\<open>addSignature\<close> and posting on an event bus do not fail.
\<close>

record services =
  applyUpdate :: "ChannelUpdate \<Rightarrow> ChannelState \<Rightarrow> ChannelState option"
  assertSignatures :: "MultisigCommitment \<Rightarrow> bool"
  saveRejects :: "ChannelState \<Rightarrow> bool"
  saveErrorMessage :: "ChannelState \<Rightarrow> string"
  sendRejects :: "identity \<Rightarrow> payload \<Rightarrow> bool"

record signer =
  publicIdentifier :: identity
  networkChainId :: nat
  signMessage :: "string \<Rightarrow> signature"

text \<open>
  Modelled from the spec: \<^verbatim>\<open>IStoreService\<close> is declared outside the sources. The store
  maps a channel address to the latest channel state; a save that does not reject
  overwrites the entry of the state's address, a save that rejects writes nothing.
\<close>

type_synonym store = "address \<rightharpoonup> ChannelState"

definition getChannelState :: "store \<Rightarrow> address \<Rightarrow> ChannelState option" where
  "getChannelState st a = st a"

definition saveChannelState :: "services \<Rightarrow> ChannelState \<Rightarrow> store \<Rightarrow> store option" where
  "saveChannelState sv s st =
     (if saveRejects sv s then None else Some (st(stateChannelAddress s \<mapsto> s)))"

text \<open>
  The observable actions of a run, in the order in which the code performs them. A
  \<open>Save\<close> or a \<open>Send\<close> is recorded when the call is made, whether or not it rejects.
  \<open>PostError\<close> carries an option because \<^verbatim>\<open>inbound\<close> posts a field that may be absent.
\<close>

datatype effect =
    Send identity payload
  | PostError "ChannelUpdateError option"
  | PostState ChannelState
  | Save ChannelState
  | Sign string
  | LogError
  | Delay nat

record 'o run =
  outcome :: 'o
  effects :: "effect list"
  finalStore :: store

section \<open>The outbound driver\<close>

text \<open>
  What can happen while one attempt of \<^verbatim>\<open>generatePromise\<close> is pending, in order of
  occurrence: an error posted on \<^verbatim>\<open>errorEvt\<close>, a state posted on \<^verbatim>\<open>stateEvt\<close>, or the
  rejection of the send. The attempt settles at the first occurrence that passes its
  filter; later ones find the promise settled. With no such occurrence the promise stays
  pending.
\<close>

datatype event =
    ErrorEvent ChannelUpdateError
  | StateEvent ChannelState
  | SendRejection

datatype settled =
    ResolvedWith "ChannelUpdateError + ChannelState"
  | RejectedSend

text \<open>
  The two \<^verbatim>\<open>pipe\<close> filters, as written. The error filter compares the event's channel
  address with itself. An error without an update makes the filter throw inside
  \<^verbatim>\<open>post\<close>, so it does not resolve the attempt.
\<close>

definition errorEvtFilter :: "ChannelUpdate \<Rightarrow> ChannelUpdateError \<Rightarrow> bool" where
  "errorEvtFilter update e =
     (case errUpdate e of
        None \<Rightarrow> False
      | Some eu \<Rightarrow> nonce eu = nonce update \<and> channelAddress eu = channelAddress eu)"

definition stateEvtFilter :: "ChannelUpdate \<Rightarrow> ChannelState \<Rightarrow> bool" where
  "stateEvtFilter update e =
     (stateChannelAddress e = channelAddress update \<and> latestNonce e = nonce update)"

fun generatePromise :: "ChannelUpdate \<Rightarrow> event list \<Rightarrow> settled option" where
  "generatePromise update [] = None"
| "generatePromise update (ErrorEvent e # evs) =
     (if errorEvtFilter update e then Some (ResolvedWith (Inl e))
      else generatePromise update evs)"
| "generatePromise update (StateEvent s # evs) =
     (if stateEvtFilter update s then Some (ResolvedWith (Inr s))
      else generatePromise update evs)"
| "generatePromise update (SendRejection # evs) = Some RejectedSend"

text \<open>
  \<^verbatim>\<open>sendWithRetry\<close>: the loop over \<^verbatim>\<open>Array(5).fill(0)\<close>. Each iteration makes one attempt,
  which sends the update with the latest update of the channel loaded at the start of
  \<^verbatim>\<open>outbound\<close>. The attempts' occurrences are given as a list, one entry per attempt; an
  attempt past the end of the list sees none. The result also returns the entries not
  yet consumed.
\<close>

datatype roundResult =
    RoundResolved "ChannelUpdateError + ChannelState"
  | RoundThrew ChannelUpdateError
  | RoundPending

definition attemptSend :: "ChannelUpdate \<Rightarrow> ChannelState \<Rightarrow> effect" where
  "attemptSend update storedChannel =
     Send (counterpartyPublicIdentifier update)
          (ChannelPayload update (latestUpdate storedChannel))"

definition messageFailed :: "ChannelUpdate \<Rightarrow> ChannelState \<Rightarrow> ChannelUpdateError" where
  "messageFailed update storedChannel =
     \<lparr>errMessage = MessageFailed, errUpdate = Some update,
      errState = Some storedChannel, errContext = None\<rparr>"

primrec sendWithRetry_loop ::
  "nat \<Rightarrow> ChannelUpdate \<Rightarrow> ChannelState \<Rightarrow> event list list
     \<Rightarrow> effect list \<times> roundResult \<times> event list list" where
  "sendWithRetry_loop 0 update storedChannel attempts =
     ([], RoundThrew (messageFailed update storedChannel), attempts)"
| "sendWithRetry_loop (Suc k) update storedChannel attempts =
     (case generatePromise update (case attempts of [] \<Rightarrow> [] | evs # _ \<Rightarrow> evs) of
        None \<Rightarrow> ([attemptSend update storedChannel], RoundPending, tl attempts)
      | Some (ResolvedWith result) \<Rightarrow>
          ([attemptSend update storedChannel], RoundResolved result, tl attempts)
      | Some RejectedSend \<Rightarrow>
          (case sendWithRetry_loop k update storedChannel (tl attempts) of
             (fx, res, rest) \<Rightarrow>
               ([attemptSend update storedChannel, LogError, Delay 3000] @ fx, res, rest)))"

definition sendWithRetry ::
  "ChannelUpdate \<Rightarrow> ChannelState \<Rightarrow> event list list
     \<Rightarrow> effect list \<times> roundResult \<times> event list list" where
  "sendWithRetry update storedChannel attempts =
     sendWithRetry_loop 5 update storedChannel attempts"

text \<open>
  To state what \<^verbatim>\<open>sendWithRetry\<close> does: the occurrences of attempt \<open>i\<close> (counted from 0),
  the number of leading attempts whose send rejects before an occurrence passes a filter,
  and the result of a round whose last attempt settled as \<open>p\<close> without rejecting.
\<close>

definition attemptEvents :: "event list list \<Rightarrow> nat \<Rightarrow> event list" where
  "attemptEvents attempts i = (if i < length attempts then attempts ! i else [])"

definition rejectedAttempts :: "ChannelUpdate \<Rightarrow> event list list \<Rightarrow> nat" where
  "rejectedAttempts update attempts =
     length (takeWhile (\<lambda>evs. generatePromise update evs = Some RejectedSend) attempts)"

definition roundOf :: "settled option \<Rightarrow> roundResult" where
  "roundOf p = (case p of Some (ResolvedWith r) \<Rightarrow> RoundResolved r | _ \<Rightarrow> RoundPending)"

text \<open>
  How a call of \<^verbatim>\<open>outbound\<close> ends: it returns a channel state, it throws a
  \<^verbatim>\<open>ChannelUpdateError\<close>, it throws the \<^verbatim>\<open>TypeError\<close> of reading \<^verbatim>\<open>latestUpdate\<close> of an
  absent \<^verbatim>\<open>result.state\<close>, or it waits for ever on a pending attempt.
\<close>

datatype outboundOutcome =
    Returned ChannelState
  | Threw ChannelUpdateError
  | ThrewTypeError
  | Pending

definition channelUpdateError ::
  "reason \<Rightarrow> ChannelUpdate option \<Rightarrow> ChannelState option \<Rightarrow> ErrorContext option
     \<Rightarrow> ChannelUpdateError" where
  "channelUpdateError r u s c =
     \<lparr>errMessage = r, errUpdate = u, errState = s, errContext = c\<rparr>"

text \<open>
  The second round of \<^verbatim>\<open>outbound\<close> (\<^verbatim>\<open>syncedResult\<close>): one more \<^verbatim>\<open>sendWithRetry\<close>, whose
  result is returned or rethrown with its own reason.
\<close>

definition syncedRound ::
  "ChannelUpdate \<Rightarrow> ChannelState \<Rightarrow> ChannelState \<Rightarrow> effect list \<Rightarrow> store
     \<Rightarrow> event list list \<Rightarrow> outboundOutcome run" where
  "syncedRound update storedChannel newState fx st attempts =
     (case sendWithRetry update storedChannel attempts of
        (fx2, RoundThrew e, _) \<Rightarrow>
          \<lparr>outcome = Threw e, effects = fx @ fx2, finalStore = st\<rparr>
      | (fx2, RoundPending, _) \<Rightarrow>
          \<lparr>outcome = Pending, effects = fx @ fx2, finalStore = st\<rparr>
      | (fx2, RoundResolved (Inr syncedResult), _) \<Rightarrow>
          \<lparr>outcome = Returned syncedResult, effects = fx @ fx2, finalStore = st\<rparr>
      | (fx2, RoundResolved (Inl syncedResult), _) \<Rightarrow>
          \<lparr>outcome = Threw (channelUpdateError (errMessage syncedResult) (Some update)
                                (Some newState) None),
           effects = fx @ fx2, finalStore = st\<rparr>)"

text \<open>
  What \<^verbatim>\<open>outbound\<close> does with an error that resolved the first round (the code after
  \<^verbatim>\<open>isChannelState(result)\<close>). After the save, \<^verbatim>\<open>error\<close> is the message of the rejection, if
  the save rejected, and the code throws \<^verbatim>\<open>SaveChannelFailed\<close> \<^verbatim>\<open>if (error)\<close>: a save that
  rejects with the empty message is followed by the retry, with the store as it was.
\<close>

definition resync ::
  "services \<Rightarrow> ChannelUpdate \<Rightarrow> ChannelState \<Rightarrow> ChannelUpdateError \<Rightarrow> effect list
     \<Rightarrow> store \<Rightarrow> event list list \<Rightarrow> outboundOutcome run" where
  "resync sv update storedChannel result fx st attempts =
     (if errMessage result \<noteq> StaleUpdateNonce then
        \<lparr>outcome = Threw (channelUpdateError (errMessage result) (Some update)
                             (Some storedChannel) None),
         effects = fx, finalStore = st\<rparr>
      else
       (case errState result of
        None \<Rightarrow> \<lparr>outcome = ThrewTypeError, effects = fx, finalStore = st\<rparr>
      | Some resultState \<Rightarrow>
         (case latestUpdate resultState of
            None \<Rightarrow>
              \<lparr>outcome = Threw (channelUpdateError StaleChannelNonceNoUpdate (Some update)
                                   (Some storedChannel) None),
               effects = fx, finalStore = st\<rparr>
          | Some lu \<Rightarrow>
              if nonce lu \<noteq> nonce update then
                \<lparr>outcome = Threw (channelUpdateError StaleChannelNonce (Some update)
                                     (Some storedChannel)
                                     (Some \<lparr>ctxCounterpartyLatestUpdate = Some lu,
                                            ctxRequestedUpdate = None\<rparr>)),
                 effects = fx, finalStore = st\<rparr>
              else
               (case applyUpdate sv lu storedChannel of
                None \<Rightarrow>
                  \<lparr>outcome = Threw (channelUpdateError applyUpdateFailed (Some lu)
                                       (Some storedChannel) None),
                   effects = fx, finalStore = st\<rparr>
              | Some newState \<Rightarrow>
                 (case saveChannelState sv newState st of
                    None \<Rightarrow>
                      if saveErrorMessage sv newState \<noteq> [] then
                        \<lparr>outcome = Threw (channelUpdateError SaveChannelFailed (Some lu)
                                             (Some storedChannel) None),
                         effects = fx @ [Save newState], finalStore = st\<rparr>
                      else
                        syncedRound update storedChannel newState (fx @ [Save newState]) st
                          attempts
                  | Some st' \<Rightarrow>
                      syncedRound update storedChannel newState (fx @ [Save newState]) st'
                        attempts)))))"

definition outbound ::
  "services \<Rightarrow> ChannelUpdate \<Rightarrow> store \<Rightarrow> event list list \<Rightarrow> outboundOutcome run" where
  "outbound sv update st attempts =
     (case getChannelState st (channelAddress update) of
        None \<Rightarrow>
          \<lparr>outcome = Threw (channelUpdateError ChannelNotFound (Some update) None None),
           effects = [], finalStore = st\<rparr>
      | Some storedChannel \<Rightarrow>
         (case sendWithRetry update storedChannel attempts of
            (fx, RoundThrew e, _) \<Rightarrow> \<lparr>outcome = Threw e, effects = fx, finalStore = st\<rparr>
          | (fx, RoundPending, _) \<Rightarrow> \<lparr>outcome = Pending, effects = fx, finalStore = st\<rparr>
          | (fx, RoundResolved (Inr result), _) \<Rightarrow>
              \<lparr>outcome = Returned result, effects = fx, finalStore = st\<rparr>
          | (fx, RoundResolved (Inl result), rest) \<Rightarrow>
              resync sv update storedChannel result fx st rest))"

section \<open>The inbound handler\<close>

text \<open>
  How a call of \<^verbatim>\<open>inbound\<close> ends: it returns, it throws the \<^verbatim>\<open>ChannelUpdateError\<close> given
  to \<^verbatim>\<open>handleError\<close>, an awaited \<^verbatim>\<open>messagingService.send\<close> rejects and that rejection
  leaves the handler (no send of the handler is inside a \<^verbatim>\<open>try\<close>), or \<^verbatim>\<open>errorEvt.post\<close>
  throws the \<^verbatim>\<open>TypeError\<close> of a subscribed filter.
\<close>

datatype inboundOutcome =
    Completed
  | Raised ChannelUpdateError
  | SendFailed payload
  | PostThrewTypeError

text \<open>
  \<^verbatim>\<open>handleError\<close>, the helper of \<^verbatim>\<open>processChannelMessage\<close>. \<open>fx\<close> and \<open>st\<close> are the effects
  so far and the store.
\<close>

definition handleError ::
  "services \<Rightarrow> identity \<Rightarrow> ChannelUpdate \<Rightarrow> ChannelUpdateError \<Rightarrow> effect list \<Rightarrow> store
     \<Rightarrow> inboundOutcome run" where
  "handleError sv sender requestedUpdate error fx st =
     (if length (signatures (commitment requestedUpdate)) = 1 then
        (if sendRejects sv sender (ErrorPayload error) then
           \<lparr>outcome = SendFailed (ErrorPayload error),
            effects = fx @ [Send sender (ErrorPayload error)], finalStore = st\<rparr>
         else
           \<lparr>outcome = Raised error,
            effects = fx @ [Send sender (ErrorPayload error), PostError (Some error)],
            finalStore = st\<rparr>)
      else
        \<lparr>outcome = Raised error, effects = fx @ [PostError (Some error)],
         finalStore = st\<rparr>)"

text \<open>
  The stored state that \<^verbatim>\<open>processChannelMessage\<close> works on: the one in the store, or for
  a setup update of an unknown channel an empty one. \<open>None\<close> is the \<^verbatim>\<open>ChannelNotFound\<close>
  return.
\<close>

definition emptyChannel :: "signer \<Rightarrow> ChannelUpdate \<Rightarrow> ChannelState" where
  "emptyChannel signer requestedUpdate =
     \<lparr>stateChannelAddress = channelAddress requestedUpdate,
      participants = [counterpartyPublicIdentifier requestedUpdate, publicIdentifier signer],
      chainId = networkChainId signer,
      latestNonce = 0,
      latestUpdate = None\<rparr>"

definition loadStoredState :: "signer \<Rightarrow> store \<Rightarrow> ChannelUpdate \<Rightarrow> ChannelState option" where
  "loadStoredState signer st requestedUpdate =
     (case getChannelState st (channelAddress requestedUpdate) of
        Some storedState \<Rightarrow> Some storedState
      | None \<Rightarrow>
          if updateType requestedUpdate \<noteq> Setup then None
          else Some (emptyChannel signer requestedUpdate))"

text \<open>
  The \<^verbatim>\<open>try\<close> block that verifies the signatures. Reading \<^verbatim>\<open>commitment\<close> of an absent
  \<^verbatim>\<open>counterpartyLatestUpdate\<close> throws a \<^verbatim>\<open>TypeError\<close> inside the block, which its \<^verbatim>\<open>catch\<close>
  handles like a failed verification.
\<close>

definition signaturesAsserted :: "services \<Rightarrow> ChannelUpdate \<Rightarrow> ChannelUpdate option \<Rightarrow> bool" where
  "signaturesAsserted sv requestedUpdate counterpartyLatestUpdate =
     (assertSignatures sv (commitment requestedUpdate) \<and>
      (case counterpartyLatestUpdate of
         None \<Rightarrow> False
       | Some lu \<Rightarrow> assertSignatures sv (commitment lu)))"

text \<open>
  The state to play the requested update on (\<^verbatim>\<open>previousState\<close>), for a nonce difference
  of 1 or 2, or the error given to \<^verbatim>\<open>handleError\<close>.
\<close>

definition syncPreviousState ::
  "services \<Rightarrow> ChannelUpdate \<Rightarrow> ChannelUpdate option \<Rightarrow> ChannelState \<Rightarrow> int
     \<Rightarrow> ChannelUpdateError + ChannelState" where
  "syncPreviousState sv requestedUpdate counterpartyLatestUpdate storedState diff =
     (if diff = 2 then
        (case counterpartyLatestUpdate of
           None \<Rightarrow>
             Inl (channelUpdateError StaleChannelNonceNoUpdate counterpartyLatestUpdate
                    (Some storedState)
                    (Some \<lparr>ctxCounterpartyLatestUpdate = None,
                           ctxRequestedUpdate = Some requestedUpdate\<rparr>))
         | Some lu \<Rightarrow>
            (case applyUpdate sv lu storedState of
               None \<Rightarrow>
                 Inl (channelUpdateError applyUpdateFailed counterpartyLatestUpdate
                        (Some storedState)
                        (Some \<lparr>ctxCounterpartyLatestUpdate = None,
                               ctxRequestedUpdate = Some requestedUpdate\<rparr>))
             | Some s \<Rightarrow> Inr s))
      else Inr storedState)"

text \<open>
  \<^verbatim>\<open>processChannelMessage\<close>, for a message from \<open>sender\<close> with data \<open>dat\<close>.
\<close>

definition processChannelMessage ::
  "services \<Rightarrow> signer \<Rightarrow> identity \<Rightarrow> ChannelMessageData \<Rightarrow> store \<Rightarrow> inboundOutcome run" where
  "processChannelMessage sv signer sender dat st =
     (let requestedUpdate = dataUpdate dat;
          counterpartyLatestUpdate = dataLatestUpdate dat;
          handle = handleError sv sender requestedUpdate;
          withLatest = Some \<lparr>ctxCounterpartyLatestUpdate = counterpartyLatestUpdate,
                             ctxRequestedUpdate = None\<rparr>
      in case loadStoredState signer st requestedUpdate of
        None \<Rightarrow>
          handle (channelUpdateError ChannelNotFound (Some requestedUpdate) None None) [] st
      | Some storedState \<Rightarrow>
          if \<not> signaturesAsserted sv requestedUpdate counterpartyLatestUpdate then
            handle (channelUpdateError BadSignatures (Some requestedUpdate)
                      (Some storedState) withLatest) [] st
          else if nonce requestedUpdate - latestNonce storedState \<le> 0 then
            handle (channelUpdateError StaleUpdateNonce (Some requestedUpdate)
                      (Some storedState) withLatest) [] st
          else if nonce requestedUpdate - latestNonce storedState \<ge> 3 then
            handle (channelUpdateError StaleChannelNonce (Some requestedUpdate)
                      (Some storedState) withLatest) [] st
          else
           (case syncPreviousState sv requestedUpdate counterpartyLatestUpdate storedState
                   (nonce requestedUpdate - latestNonce storedState) of
              Inl e \<Rightarrow> handle e [] st
            | Inr previousState \<Rightarrow>
               (case applyUpdate sv requestedUpdate previousState of
                  None \<Rightarrow>
                    handle (channelUpdateError applyUpdateFailed (Some requestedUpdate)
                              (Some previousState) withLatest) [] st
                | Some response \<Rightarrow>
                    if length (signatures (commitment requestedUpdate)) = 1 then
                     (let sig = signMessage signer (getHash (commitment requestedUpdate));
                          signed = addSignature (commitment requestedUpdate) sig;
                          fx = [Sign (getHash (commitment requestedUpdate)), Save response]
                      in case saveChannelState sv response st of
                        None \<Rightarrow>
                          handle (channelUpdateError SaveChannelFailed (Some requestedUpdate)
                                    (Some previousState)
                                    (Some \<lparr>ctxCounterpartyLatestUpdate = None,
                                           ctxRequestedUpdate = None\<rparr>)) fx st
                      | Some st' \<Rightarrow>
                         (let reply = ChannelPayload (requestedUpdate\<lparr>commitment := signed\<rparr>)
                                        (latestUpdate response)
                          in \<lparr>outcome = (if sendRejects sv sender reply then SendFailed reply
                                          else Completed),
                              effects = fx @ [Send sender reply], finalStore = st'\<rparr>))
                    else
                     (case saveChannelState sv response st of
                        None \<Rightarrow>
                          handle (channelUpdateError SaveChannelFailed (Some requestedUpdate)
                                    (Some previousState)
                                    (Some \<lparr>ctxCounterpartyLatestUpdate = None,
                                           ctxRequestedUpdate = None\<rparr>)) [Save response] st
                      | Some st' \<Rightarrow>
                          \<lparr>outcome = Completed,
                           effects = [Save response, PostState response],
                           finalStore = st'\<rparr>))))"





section \<open>Concrete inputs\<close>

text \<open>
  Modelled from the spec: \<^verbatim>\<open>applyUpdate\<close> is imported from outside the sources. This
  instance follows the spec's data model: an update applies to a state of its channel
  whose latest nonce is one below the update's nonce, and the new state has the update
  as its latest update and the update's nonce as its latest nonce. It is used for concrete
  runs only; the theorems about all runs hold for every \<open>applyUpdate\<close>.
\<close>

definition applyNext :: "ChannelUpdate \<Rightarrow> ChannelState \<Rightarrow> ChannelState option" where
  "applyNext update s =
     (if channelAddress update = stateChannelAddress s \<and> nonce update = latestNonce s + 1
      then Some (s\<lparr>latestNonce := nonce update, latestUpdate := Some update\<rparr>)
      else None)"

text \<open>
  Services for concrete runs: a commitment verifies unless it carries the signature
  \<open>''forged''\<close>; no save and no send rejects.
\<close>

definition testServices :: services where
  "testServices =
     \<lparr>applyUpdate = applyNext,
      assertSignatures = (\<lambda>c. ''forged'' \<notin> set (signatures c)),
      saveRejects = (\<lambda>s. False),
      saveErrorMessage = (\<lambda>s. ''store failure''),
      sendRejects = (\<lambda>to p. False)\<rparr>"

definition bob :: signer where
  "bob = \<lparr>publicIdentifier = ''bob'', networkChainId = 1,
          signMessage = (\<lambda>h. ''bob signs '' @ h)\<rparr>"

text \<open>An update of \<open>alice\<close> to \<open>bob\<close>, and a channel state of \<open>bob\<close> with latest nonce \<open>n\<close>.\<close>

definition mkUpdate :: "address \<Rightarrow> int \<Rightarrow> UpdateType \<Rightarrow> signature list \<Rightarrow> ChannelUpdate" where
  "mkUpdate a n t sigs =
     \<lparr>channelAddress = a, nonce = n, counterpartyPublicIdentifier = ''bob'',
      updateType = t, commitment = \<lparr>signatures = sigs, commitmentHash = ''hash''\<rparr>\<rparr>"

definition mkState :: "address \<Rightarrow> int \<Rightarrow> ChannelState" where
  "mkState a n =
     \<lparr>stateChannelAddress = a, participants = [''alice'', ''bob''], chainId = 1,
      latestNonce = n,
      latestUpdate = Some (mkUpdate a n (Other ''deposit'') [''alice'', ''bob''])\<rparr>"

definition storeAt :: "address \<Rightarrow> int \<Rightarrow> store" where
  "storeAt a n = [a \<mapsto> mkState a n]"

text \<open>The same services with a transport on which every awaited send rejects.\<close>

definition offlineServices :: services where
  "offlineServices = testServices\<lparr>sendRejects := (\<lambda>to p. True)\<rparr>"

text \<open>
  The same services with a store whose every save rejects with an \<^verbatim>\<open>Error\<close> that has the
  empty message (\<^verbatim>\<open>new Error()\<close>).
\<close>

definition silentStoreServices :: services where
  "silentStoreServices =
     testServices\<lparr>saveRejects := (\<lambda>s. True), saveErrorMessage := (\<lambda>s. [])\<rparr>"

section \<open>Properties\<close>

subsection \<open>The error subscription of an attempt\<close>

lemma errorEvtFilter_nonce_only:
  "errUpdate e = Some eu \<Longrightarrow> errorEvtFilter update e = (nonce eu = nonce update)"
  by (simp add: errorEvtFilter_def)

text \<open>
  Claim C1 says that an error tagged with the update's nonce but with another channel
  address never resolves the attempt. The filter compares the error's channel address
  with itself (\<open>errorEvtFilter_nonce_only\<close>), so only the nonce counts: an attempt for
  nonce 6 on \<open>channelA\<close> is resolved by an error for nonce 6 on \<open>channelB\<close>.
\<close>

theorem generatePromise_error_other_channel:
  "channelAddress (mkUpdate ''channelB'' 6 (Other ''deposit'') [''carol''])
     \<noteq> channelAddress (mkUpdate ''channelA'' 6 (Other ''deposit'') [''alice''])
   \<and> generatePromise (mkUpdate ''channelA'' 6 (Other ''deposit'') [''alice''])
       [ErrorEvent (channelUpdateError StaleUpdateNonce
                      (Some (mkUpdate ''channelB'' 6 (Other ''deposit'') [''carol'']))
                      (Some (mkState ''channelB'' 9)) None)]
     = Some (ResolvedWith (Inl (channelUpdateError StaleUpdateNonce
                      (Some (mkUpdate ''channelB'' 6 (Other ''deposit'') [''carol'']))
                      (Some (mkState ''channelB'' 9)) None)))"
  by (simp add: errorEvtFilter_def channelUpdateError_def mkUpdate_def)

subsection \<open>The retry loop\<close>

lemma attemptEvents_Nil [simp]: "attemptEvents [] i = []"
  by (simp add: attemptEvents_def)

lemma attemptEvents_Cons_0 [simp]: "attemptEvents (a # as) 0 = a"
  by (simp add: attemptEvents_def)

lemma attemptEvents_Cons_Suc [simp]: "attemptEvents (a # as) (Suc i) = attemptEvents as i"
  by (simp add: attemptEvents_def)

lemma rejectedAttempts_Nil [simp]: "rejectedAttempts update [] = 0"
  by (simp add: rejectedAttempts_def)

lemma rejectedAttempts_Cons [simp]:
  "rejectedAttempts update (a # as) =
     (if generatePromise update a = Some RejectedSend then Suc (rejectedAttempts update as) else 0)"
  by (simp add: rejectedAttempts_def)

lemma sendWithRetry_loop_char:
  "sendWithRetry_loop k update sc attempts =
     (let n = min k (rejectedAttempts update attempts) in
      (concat (replicate n [attemptSend update sc, LogError, Delay 3000])
         @ (if n = k then [] else [attemptSend update sc]),
       (if n = k then RoundThrew (messageFailed update sc)
        else roundOf (generatePromise update (attemptEvents attempts n))),
       drop (if n = k then k else Suc n) attempts))"
proof (induction k arbitrary: attempts)
  case 0
  show ?case by simp
next
  case (Suc k)
  show ?case
  proof (cases attempts)
    case Nil
    then show ?thesis by (simp add: roundOf_def)
  next
    case (Cons a as)
    show ?thesis
    proof (cases "generatePromise update a")
      case None
      with Cons show ?thesis by (simp add: roundOf_def)
    next
      case (Some p)
      show ?thesis
      proof (cases p)
        case (ResolvedWith r)
        with Some Cons show ?thesis by (simp add: roundOf_def)
      next
        case RejectedSend
        with Some Cons Suc.IH [of as] show ?thesis
          by (simp add: Let_def)
      qed
    qed
  qed
qed


lemma sends_of_rejected_attempts:
  "length (filter (\<lambda>a. a = attemptSend update sc)
             (concat (replicate n [attemptSend update sc, LogError, Delay 3000]))) = n"
  by (induction n) (simp_all add: attemptSend_def)

lemma delays_of_rejected_attempts:
  "Delay d \<in> set (concat (replicate n [attemptSend update sc, LogError, Delay 3000]))
     \<Longrightarrow> d = 3000"
  by (induction n) (auto simp: attemptSend_def)

lemma last_attempt_not_rejected:
  "generatePromise update (attemptEvents attempts (rejectedAttempts update attempts))
     \<noteq> Some RejectedSend"
  by (induction attempts) simp_all

text \<open>
  Claim C8. With \<open>n\<close> the number of leading attempts, among the first five, whose send
  rejects: a round makes these \<open>n\<close> attempts, each followed by the log entry and a delay of
  3000, and, when \<open>n < 5\<close>, one more attempt, which does not reject and whose result (an
  error or a state from the event bus, or no settlement at all) is the round's result with
  no further attempt. So there are at most five sends, every delay is 3000, and a retry
  only follows a rejected send. When all five attempts reject, the round throws
  \<^verbatim>\<open>MessageFailed\<close>, and so does the call of \<^verbatim>\<open>outbound\<close>.
\<close>

theorem sendWithRetry_policy:
  "(let n = min 5 (rejectedAttempts update attempts);
        send = attemptSend update storedChannel
    in case sendWithRetry update storedChannel attempts of
         (fx, res, rest) \<Rightarrow>
           fx = concat (replicate n [send, LogError, Delay 3000])
                  @ (if n = 5 then [] else [send])
         \<and> length (filter (\<lambda>a. a = send) fx) \<le> 5
         \<and> (\<forall>d. Delay d \<in> set fx \<longrightarrow> d = 3000)
         \<and> (if n = 5 then res = RoundThrew (messageFailed update storedChannel)
            else generatePromise update (attemptEvents attempts n) \<noteq> Some RejectedSend
               \<and> res = roundOf (generatePromise update (attemptEvents attempts n)))
         \<and> rest = drop (if n = 5 then 5 else Suc n) attempts)
   \<and> errMessage (messageFailed update storedChannel) = MessageFailed
   \<and> (getChannelState st (channelAddress update) = Some storedChannel
        \<and> 5 \<le> rejectedAttempts update attempts
      \<longrightarrow> outcome (outbound sv update st attempts)
            = Threw (messageFailed update storedChannel))"
proof -
  let ?n = "min 5 (rejectedAttempts update attempts)"
  let ?send = "attemptSend update storedChannel"
  let ?blocks = "concat (replicate ?n [?send, LogError, Delay 3000])"
  have loop: "sendWithRetry update storedChannel attempts =
      (?blocks @ (if ?n = 5 then [] else [?send]),
       (if ?n = 5 then RoundThrew (messageFailed update storedChannel)
        else roundOf (generatePromise update (attemptEvents attempts ?n))),
       drop (if ?n = 5 then 5 else Suc ?n) attempts)"
    unfolding sendWithRetry_def sendWithRetry_loop_char [of 5] Let_def ..
  have sends: "length (filter (\<lambda>a. a = ?send) (?blocks @ (if ?n = 5 then [] else [?send]))) \<le> 5"
    by (auto simp: sends_of_rejected_attempts min_def)
  have delays: "\<forall>d. Delay d \<in> set (?blocks @ (if ?n = 5 then [] else [?send])) \<longrightarrow> d = 3000"
    by (auto dest: delays_of_rejected_attempts simp: attemptSend_def)
  have last: "?n \<noteq> 5 \<Longrightarrow>
      generatePromise update (attemptEvents attempts ?n) \<noteq> Some RejectedSend"
    using last_attempt_not_rejected [of update attempts] by (simp add: min_def split: if_splits)
  have failed: "errMessage (messageFailed update storedChannel) = MessageFailed"
    by (simp add: messageFailed_def)
  have call: "getChannelState st (channelAddress update) = Some storedChannel
        \<and> 5 \<le> rejectedAttempts update attempts
      \<longrightarrow> outcome (outbound sv update st attempts)
            = Threw (messageFailed update storedChannel)"
    by (simp add: outbound_def loop min_def)
  show ?thesis
    unfolding Let_def loop using sends delays last failed call by simp
qed


text \<open>
  Two runs: the sends of attempts 1 and 2 reject, attempt 3 is resolved by an error and is
  not retried; and five rejected sends make \<^verbatim>\<open>outbound\<close> throw \<^verbatim>\<open>MessageFailed\<close>.
\<close>

theorem sendWithRetry_policy_witness:
  "sendWithRetry (mkUpdate ''channelA'' 6 (Other ''deposit'') [''alice'']) (mkState ''channelA'' 5)
     [[SendRejection],
      [StateEvent (mkState ''channelB'' 6), SendRejection],
      [ErrorEvent (channelUpdateError BadSignatures
                     (Some (mkUpdate ''channelA'' 6 (Other ''deposit'') [''alice'']))
                     (Some (mkState ''channelA'' 5)) None)],
      [StateEvent (mkState ''channelA'' 6)]]
   = ([attemptSend (mkUpdate ''channelA'' 6 (Other ''deposit'') [''alice'']) (mkState ''channelA'' 5),
       LogError, Delay 3000,
       attemptSend (mkUpdate ''channelA'' 6 (Other ''deposit'') [''alice'']) (mkState ''channelA'' 5),
       LogError, Delay 3000,
       attemptSend (mkUpdate ''channelA'' 6 (Other ''deposit'') [''alice'']) (mkState ''channelA'' 5)],
      RoundResolved (Inl (channelUpdateError BadSignatures
                     (Some (mkUpdate ''channelA'' 6 (Other ''deposit'') [''alice'']))
                     (Some (mkState ''channelA'' 5)) None)),
      [[StateEvent (mkState ''channelA'' 6)]])
   \<and> outcome (outbound testServices (mkUpdate ''channelA'' 6 (Other ''deposit'') [''alice''])
                (storeAt ''channelA'' 5)
                [[SendRejection], [SendRejection], [SendRejection], [SendRejection],
                 [SendRejection], [StateEvent (mkState ''channelA'' 6)]])
     = Threw (messageFailed (mkUpdate ''channelA'' 6 (Other ''deposit'') [''alice''])
                (mkState ''channelA'' 5))"
proof -
  let ?u = "mkUpdate ''channelA'' 6 (Other ''deposit'') [''alice'']"
  let ?s = "mkState ''channelA'' 5"
  let ?e = "channelUpdateError BadSignatures (Some ?u) (Some ?s) None"
  let ?as = "[[SendRejection], [StateEvent (mkState ''channelB'' 6), SendRejection],
              [ErrorEvent ?e], [StateEvent (mkState ''channelA'' 6)]]"
  let ?bs = "[[SendRejection], [SendRejection], [SendRejection], [SendRejection],
              [SendRejection], [StateEvent (mkState ''channelA'' 6)]]"
  have five: "(5::nat) = Suc (Suc (Suc (Suc (Suc 0))))"
    by simp
  have first: "sendWithRetry ?u ?s ?as =
      ([attemptSend ?u ?s, LogError, Delay 3000, attemptSend ?u ?s, LogError, Delay 3000,
        attemptSend ?u ?s], RoundResolved (Inl ?e), [[StateEvent (mkState ''channelA'' 6)]])"
    unfolding sendWithRetry_def five
    by (simp add: stateEvtFilter_def errorEvtFilter_def mkUpdate_def mkState_def
          channelUpdateError_def)
  have "getChannelState (storeAt ''channelA'' 5) (channelAddress ?u) = Some ?s
        \<and> 5 \<le> rejectedAttempts ?u ?bs"
    by (simp add: getChannelState_def storeAt_def mkUpdate_def)
  with sendWithRetry_policy [where update = ?u and storedChannel = ?s and attempts = ?bs
         and st = "storeAt ''channelA'' 5" and sv = testServices]
  have "outcome (outbound testServices ?u (storeAt ''channelA'' 5) ?bs)
          = Threw (messageFailed ?u ?s)"
    by blast
  with first show ?thesis
    by simp
qed

subsection \<open>The runs of the inbound handler\<close>

text \<open>
  Every run of \<^verbatim>\<open>processChannelMessage\<close> is one of four: the update is rejected before
  anything is done (\<open>Rejected\<close>), the save of the new state rejects (\<open>SaveFailed\<close>), a
  single-signed update is saved and acknowledged (\<open>Acked\<close>), or an update with another
  number of signatures is saved and published (\<open>Finalized\<close>).
\<close>

lemma signaturesAsserted_latest:
  "signaturesAsserted sv ru lu \<Longrightarrow> \<exists>u. lu = Some u"
  by (cases lu) (simp_all add: signaturesAsserted_def)

lemma syncPreviousState_Inl:
  assumes "syncPreviousState sv ru (Some u) storedState diff = Inl e"
  shows "e = channelUpdateError applyUpdateFailed (Some u) (Some storedState)
               (Some \<lparr>ctxCounterpartyLatestUpdate = None, ctxRequestedUpdate = Some ru\<rparr>)"
    and "diff = 2" and "applyUpdate sv u storedState = None"
  using assms by (auto simp: syncPreviousState_def split: if_splits option.splits)

lemma processChannelMessage_cases
  [consumes 0, case_names Rejected SaveFailed Acked Finalized]:
  fixes sv signer sender dat st
  defines "r \<equiv> processChannelMessage sv signer sender dat st"
      and "ru \<equiv> dataUpdate dat"
  obtains
    (Rejected) e where
      "r = handleError sv sender ru e [] st"
      "errMessage e \<in> {ChannelNotFound, BadSignatures, StaleUpdateNonce, StaleChannelNonce,
                        applyUpdateFailed}"
  | (SaveFailed) storedState e response fx where
      "loadStoredState signer st ru = Some storedState"
      "signaturesAsserted sv ru (dataLatestUpdate dat)"
      "0 < nonce ru - latestNonce storedState" "nonce ru - latestNonce storedState < 3"
      "r = handleError sv sender ru e fx st"
      "errMessage e = SaveChannelFailed"
      "fx = [Sign (getHash (commitment ru)), Save response] \<or> fx = [Save response]"
  | (Acked) storedState previousState response reply where
      "loadStoredState signer st ru = Some storedState"
      "signaturesAsserted sv ru (dataLatestUpdate dat)"
      "0 < nonce ru - latestNonce storedState" "nonce ru - latestNonce storedState < 3"
      "syncPreviousState sv ru (dataLatestUpdate dat) storedState
         (nonce ru - latestNonce storedState) = Inr previousState"
      "applyUpdate sv ru previousState = Some response"
      "length (signatures (commitment ru)) = 1"
      "reply = ChannelPayload
                 (ru\<lparr>commitment := addSignature (commitment ru)
                                      (signMessage signer (getHash (commitment ru)))\<rparr>)
                 (latestUpdate response)"
      "r = \<lparr>outcome = (if sendRejects sv sender reply then SendFailed reply else Completed),
            effects = [Sign (getHash (commitment ru)), Save response, Send sender reply],
            finalStore = st(stateChannelAddress response \<mapsto> response)\<rparr>"
  | (Finalized) storedState previousState response where
      "loadStoredState signer st ru = Some storedState"
      "signaturesAsserted sv ru (dataLatestUpdate dat)"
      "0 < nonce ru - latestNonce storedState" "nonce ru - latestNonce storedState < 3"
      "syncPreviousState sv ru (dataLatestUpdate dat) storedState
         (nonce ru - latestNonce storedState) = Inr previousState"
      "applyUpdate sv ru previousState = Some response"
      "length (signatures (commitment ru)) \<noteq> 1"
      "r = \<lparr>outcome = Completed, effects = [Save response, PostState response],
            finalStore = st(stateChannelAddress response \<mapsto> response)\<rparr>"
proof (cases "loadStoredState signer st ru")
  case None
  then have "r = handleError sv sender ru
                   (channelUpdateError ChannelNotFound (Some ru) None None) [] st"
    by (simp add: r_def ru_def processChannelMessage_def Let_def)
  then show thesis
    by (rule Rejected) (simp add: channelUpdateError_def)
next
  case (Some storedState)
  note stored = Some
  let ?lu = "dataLatestUpdate dat"
  let ?diff = "nonce ru - latestNonce storedState"
  let ?withLatest = "Some \<lparr>ctxCounterpartyLatestUpdate = ?lu, ctxRequestedUpdate = None\<rparr>"
  show thesis
  proof (cases "signaturesAsserted sv ru ?lu")
    case False
    with stored have "r = handleError sv sender ru
        (channelUpdateError BadSignatures (Some ru) (Some storedState) ?withLatest) [] st"
      by (simp add: r_def ru_def processChannelMessage_def Let_def)
    then show thesis
      by (rule Rejected) (simp add: channelUpdateError_def)
  next
    case True
    note sigs = True
    then obtain u where lu: "?lu = Some u"
      by (auto dest: signaturesAsserted_latest)
    consider "?diff \<le> 0" | "3 \<le> ?diff" | "0 < ?diff" "?diff < 3"
      by linarith
    then show thesis
    proof cases
      case 1
      with stored sigs have "r = handleError sv sender ru
          (channelUpdateError StaleUpdateNonce (Some ru) (Some storedState) ?withLatest) [] st"
        by (simp add: r_def ru_def processChannelMessage_def Let_def)
      then show thesis
        by (rule Rejected) (simp add: channelUpdateError_def)
    next
      case 2
      with stored sigs have "r = handleError sv sender ru
          (channelUpdateError StaleChannelNonce (Some ru) (Some storedState) ?withLatest) [] st"
        by (simp add: r_def ru_def processChannelMessage_def Let_def)
      then show thesis
        by (rule Rejected) (simp add: channelUpdateError_def)
    next
      case 3
      then have range: "\<not> ?diff \<le> 0" "\<not> 3 \<le> ?diff"
        by simp_all
      show thesis
      proof (cases "syncPreviousState sv ru ?lu storedState ?diff")
        case (Inl e)
        with stored sigs range have "r = handleError sv sender ru e [] st"
          by (simp add: r_def ru_def processChannelMessage_def Let_def)
        moreover from Inl lu have "errMessage e = applyUpdateFailed"
          by (auto dest: syncPreviousState_Inl(1) simp: channelUpdateError_def)
        ultimately show thesis
          by (intro Rejected [of e]) simp_all
      next
        case (Inr previousState)
        note prev = Inr
        show thesis
        proof (cases "applyUpdate sv ru previousState")
          case None
          with stored sigs range prev have "r = handleError sv sender ru
              (channelUpdateError applyUpdateFailed (Some ru) (Some previousState) ?withLatest)
              [] st"
            by (simp add: r_def ru_def processChannelMessage_def Let_def)
          then show thesis
            by (rule Rejected) (simp add: channelUpdateError_def)
        next
          case (Some response)
          note resp = Some
          show thesis
          proof (cases "length (signatures (commitment ru)) = 1")
            case True
            note single = True
            show thesis
            proof (cases "saveRejects sv response")
              case True
              with stored sigs range prev resp single have r: "r = handleError sv sender ru
                  (channelUpdateError SaveChannelFailed (Some ru) (Some previousState)
                     (Some \<lparr>ctxCounterpartyLatestUpdate = None, ctxRequestedUpdate = None\<rparr>))
                  [Sign (getHash (commitment ru)), Save response] st"
                by (simp add: r_def ru_def processChannelMessage_def Let_def
                      saveChannelState_def)
              show thesis
                by (rule SaveFailed [OF stored sigs "3" r]) (simp_all add: channelUpdateError_def)
            next
              case False
              let ?reply = "ChannelPayload
                 (ru\<lparr>commitment := addSignature (commitment ru)
                                      (signMessage signer (getHash (commitment ru)))\<rparr>)
                 (latestUpdate response)"
              from False stored sigs range prev resp single
              have r: "r = \<lparr>outcome = (if sendRejects sv sender ?reply then SendFailed ?reply
                                     else Completed),
                         effects = [Sign (getHash (commitment ru)), Save response,
                                    Send sender ?reply],
                         finalStore = st(stateChannelAddress response \<mapsto> response)\<rparr>"
                by (simp add: r_def ru_def processChannelMessage_def Let_def
                      saveChannelState_def)
              show thesis
                by (rule Acked [OF stored sigs "3" prev resp single refl r])
            qed
          next
            case False
            note double = False
            show thesis
            proof (cases "saveRejects sv response")
              case True
              with stored sigs range prev resp double have r: "r = handleError sv sender ru
                  (channelUpdateError SaveChannelFailed (Some ru) (Some previousState)
                     (Some \<lparr>ctxCounterpartyLatestUpdate = None, ctxRequestedUpdate = None\<rparr>))
                  [Save response] st"
                by (simp add: r_def ru_def processChannelMessage_def Let_def
                      saveChannelState_def)
              show thesis
                by (rule SaveFailed [OF stored sigs "3" r]) (simp_all add: channelUpdateError_def)
            next
              case False
              with stored sigs range prev resp double
              have r: "r = \<lparr>outcome = Completed, effects = [Save response, PostState response],
                         finalStore = st(stateChannelAddress response \<mapsto> response)\<rparr>"
                by (simp add: r_def ru_def processChannelMessage_def Let_def
                      saveChannelState_def)
              show thesis
                by (rule Finalized [OF stored sigs "3" prev resp double r])
            qed
          qed
        qed
      qed
    qed
  qed
qed

lemma handleError_store [simp]: "finalStore (handleError sv sender ru e fx st) = st"
  by (simp add: handleError_def)

lemma handleError_effects:
  "effects (handleError sv sender ru e fx st) =
     fx @ (if length (signatures (commitment ru)) = 1 then [Send sender (ErrorPayload e)] else [])
        @ (if length (signatures (commitment ru)) = 1 \<and> sendRejects sv sender (ErrorPayload e)
           then [] else [PostError (Some e)])"
  by (simp add: handleError_def)

lemma handleError_outcome_eq:
  "outcome (handleError sv sender ru e fx st) =
     (if length (signatures (commitment ru)) = 1 \<and> sendRejects sv sender (ErrorPayload e)
      then SendFailed (ErrorPayload e) else Raised e)"
  by (simp add: handleError_def)

subsection \<open>An absent latest update\<close>

text \<open>
  A message without \<^verbatim>\<open>latestUpdate\<close> never gets past the signature check, whatever its
  nonce: the check reads the commitment of the absent update. So the handler never gives
  the reason \<^verbatim>\<open>StaleChannelNonceNoUpdate\<close>.
\<close>

lemma absent_latest_update_is_bad_signatures:
  assumes "loadStoredState signer st (dataUpdate dat) = Some storedState"
      and "dataLatestUpdate dat = None"
  shows "processChannelMessage sv signer sender dat st =
           handleError sv sender (dataUpdate dat)
             (channelUpdateError BadSignatures (Some (dataUpdate dat)) (Some storedState)
                (Some \<lparr>ctxCounterpartyLatestUpdate = None, ctxRequestedUpdate = None\<rparr>))
             [] st"
  using assms by (simp add: processChannelMessage_def signaturesAsserted_def Let_def)

lemma never_StaleChannelNonceNoUpdate:
  assumes "outcome (processChannelMessage sv signer sender dat st) = Raised e
           \<or> outcome (processChannelMessage sv signer sender dat st) = SendFailed (ErrorPayload e)"
  shows "errMessage e \<noteq> StaleChannelNonceNoUpdate"
proof (cases rule: processChannelMessage_cases
    [where sv = sv and signer = signer and sender = sender and dat = dat and st = st])
  case (Rejected e')
  with assms have "e' = e"
    by (auto simp: handleError_outcome_eq split: if_splits)
  with Rejected show ?thesis
    by auto
next
  case (SaveFailed storedState e' response fx)
  with assms have "e' = e"
    by (auto simp: handleError_outcome_eq split: if_splits)
  with SaveFailed show ?thesis
    by simp
next
  case (Acked storedState previousState response reply)
  with assms show ?thesis
    by (auto split: if_splits)
next
  case (Finalized storedState previousState response)
  with assms show ?thesis
    by simp
qed

text \<open>
  Claim C2 says that a message with nonce difference 2 and no \<^verbatim>\<open>latestUpdate\<close> fails with
  \<^verbatim>\<open>StaleChannelNonceNoUpdate\<close>. With the store at nonce 5 and a correctly signed update of
  nonce 7, the handler fails with \<^verbatim>\<open>BadSignatures\<close>.
\<close>

theorem absent_latest_update_at_diff_2:
  "nonce (mkUpdate ''channelA'' 7 (Other ''deposit'') [''alice''])
     - latestNonce (mkState ''channelA'' 5) = 2
   \<and> processChannelMessage testServices bob ''alice''
       \<lparr>dataUpdate = mkUpdate ''channelA'' 7 (Other ''deposit'') [''alice''],
        dataLatestUpdate = None\<rparr>
       (storeAt ''channelA'' 5)
     = \<lparr>outcome = Raised (channelUpdateError BadSignatures
                           (Some (mkUpdate ''channelA'' 7 (Other ''deposit'') [''alice'']))
                           (Some (mkState ''channelA'' 5))
                           (Some \<lparr>ctxCounterpartyLatestUpdate = None,
                                  ctxRequestedUpdate = None\<rparr>)),
        effects = [Send ''alice'' (ErrorPayload (channelUpdateError BadSignatures
                           (Some (mkUpdate ''channelA'' 7 (Other ''deposit'') [''alice'']))
                           (Some (mkState ''channelA'' 5))
                           (Some \<lparr>ctxCounterpartyLatestUpdate = None,
                                  ctxRequestedUpdate = None\<rparr>))),
                   PostError (Some (channelUpdateError BadSignatures
                           (Some (mkUpdate ''channelA'' 7 (Other ''deposit'') [''alice'']))
                           (Some (mkState ''channelA'' 5))
                           (Some \<lparr>ctxCounterpartyLatestUpdate = None,
                                  ctxRequestedUpdate = None\<rparr>)))],
        finalStore = storeAt ''channelA'' 5\<rparr>"
  by (simp add: processChannelMessage_def loadStoredState_def getChannelState_def
        signaturesAsserted_def handleError_def testServices_def storeAt_def mkUpdate_def
        mkState_def Let_def)

subsection \<open>Rejected updates leave the store alone\<close>

text \<open>
  Claim C6. The handler rejects an update with an error \<open>e\<close> by throwing it, or, when the
  reply to the sender rejects, by having tried to send it. Whenever the reason of \<open>e\<close> is
  one of those given for a stale nonce (difference \<open>\<le> 0\<close>), a gap (difference \<open>\<ge> 3\<close>),
  bad signatures, missing resync material or a failed application (or for an unknown
  channel), the store after the run is the store before it, and no save was attempted.
\<close>

theorem rejected_update_no_store_write:
  assumes "outcome (processChannelMessage sv signer sender dat st) = Raised e
           \<or> outcome (processChannelMessage sv signer sender dat st) = SendFailed (ErrorPayload e)"
      and "errMessage e \<in> {StaleUpdateNonce, StaleChannelNonce, BadSignatures,
                            StaleChannelNonceNoUpdate, applyUpdateFailed, ChannelNotFound}"
  shows "finalStore (processChannelMessage sv signer sender dat st) = st
         \<and> (\<forall>s. Save s \<notin> set (effects (processChannelMessage sv signer sender dat st)))"
proof (cases rule: processChannelMessage_cases
    [where sv = sv and signer = signer and sender = sender and dat = dat and st = st])
  case (Rejected e')
  then show ?thesis
    by (auto simp: handleError_effects)
next
  case (SaveFailed storedState e' response fx)
  with assms have "e' = e"
    by (auto simp: handleError_outcome_eq split: if_splits)
  with SaveFailed assms(2) show ?thesis
    by simp
next
  case (Acked storedState previousState response reply)
  with assms(1) show ?thesis
    by (auto split: if_splits)
next
  case (Finalized storedState previousState response)
  with assms(1) show ?thesis
    by simp
qed

text \<open>
  Scenario C of the spec: the store is at nonce 5 and an update of nonce 8 arrives.
\<close>

lemma scenario_C:
  "processChannelMessage testServices bob ''alice''
     \<lparr>dataUpdate = mkUpdate ''channelA'' 8 (Other ''deposit'') [''alice''],
      dataLatestUpdate = Some (mkUpdate ''channelA'' 7 (Other ''deposit'') [''alice'', ''bob''])\<rparr>
     (storeAt ''channelA'' 5)
   = handleError testServices ''alice'' (mkUpdate ''channelA'' 8 (Other ''deposit'') [''alice''])
       (channelUpdateError StaleChannelNonce
          (Some (mkUpdate ''channelA'' 8 (Other ''deposit'') [''alice'']))
          (Some (mkState ''channelA'' 5))
          (Some \<lparr>ctxCounterpartyLatestUpdate =
                    Some (mkUpdate ''channelA'' 7 (Other ''deposit'') [''alice'', ''bob'']),
                  ctxRequestedUpdate = None\<rparr>))
       [] (storeAt ''channelA'' 5)"
  by (simp add: processChannelMessage_def loadStoredState_def getChannelState_def
        signaturesAsserted_def testServices_def storeAt_def mkUpdate_def mkState_def Let_def)

theorem rejected_update_no_store_write_witness:
  "outcome (processChannelMessage testServices bob ''alice''
     \<lparr>dataUpdate = mkUpdate ''channelA'' 8 (Other ''deposit'') [''alice''],
      dataLatestUpdate = Some (mkUpdate ''channelA'' 7 (Other ''deposit'') [''alice'', ''bob''])\<rparr>
     (storeAt ''channelA'' 5))
   = Raised (channelUpdateError StaleChannelNonce
          (Some (mkUpdate ''channelA'' 8 (Other ''deposit'') [''alice'']))
          (Some (mkState ''channelA'' 5))
          (Some \<lparr>ctxCounterpartyLatestUpdate =
                    Some (mkUpdate ''channelA'' 7 (Other ''deposit'') [''alice'', ''bob'']),
                  ctxRequestedUpdate = None\<rparr>))
   \<and> finalStore (processChannelMessage testServices bob ''alice''
     \<lparr>dataUpdate = mkUpdate ''channelA'' 8 (Other ''deposit'') [''alice''],
      dataLatestUpdate = Some (mkUpdate ''channelA'' 7 (Other ''deposit'') [''alice'', ''bob''])\<rparr>
     (storeAt ''channelA'' 5)) = storeAt ''channelA'' 5
   \<and> (\<forall>s. Save s \<notin> set (effects (processChannelMessage testServices bob ''alice''
     \<lparr>dataUpdate = mkUpdate ''channelA'' 8 (Other ''deposit'') [''alice''],
      dataLatestUpdate = Some (mkUpdate ''channelA'' 7 (Other ''deposit'') [''alice'', ''bob''])\<rparr>
     (storeAt ''channelA'' 5))))"
proof -
  let ?e = "channelUpdateError StaleChannelNonce
          (Some (mkUpdate ''channelA'' 8 (Other ''deposit'') [''alice'']))
          (Some (mkState ''channelA'' 5))
          (Some \<lparr>ctxCounterpartyLatestUpdate =
                    Some (mkUpdate ''channelA'' 7 (Other ''deposit'') [''alice'', ''bob'']),
                  ctxRequestedUpdate = None\<rparr>)"
  let ?r = "processChannelMessage testServices bob ''alice''
     \<lparr>dataUpdate = mkUpdate ''channelA'' 8 (Other ''deposit'') [''alice''],
      dataLatestUpdate = Some (mkUpdate ''channelA'' 7 (Other ''deposit'') [''alice'', ''bob''])\<rparr>
     (storeAt ''channelA'' 5)"
  have raised: "outcome ?r = Raised ?e"
    unfolding scenario_C by (simp add: handleError_outcome_eq testServices_def)
  have reason: "errMessage ?e \<in> {StaleUpdateNonce, StaleChannelNonce, BadSignatures,
                            StaleChannelNonceNoUpdate, applyUpdateFailed, ChannelNotFound}"
    by (simp add: channelUpdateError_def)
  from rejected_update_no_store_write [OF disjI1 [OF raised] reason] raised
  show ?thesis by simp
qed

subsection \<open>Error paths of the inbound handler\<close>

text \<open>
  Claim C7, as amended. Every run either saves the new state, and then no error is sent,
  published or thrown; or it is an error path with an error \<open>e\<close>, the store is untouched
  and, after the effects \<open>fx\<close> made before the error (none, or the signing and the
  rejected save):
  \<^item> the error is sent to the sender exactly when the requested update has one signature;
  \<^item> if that send rejects, the run ends there with the rejection of the send: the error is
    not published and is not what leaves the handler;
  \<^item> otherwise the error is published on the error bus, as the last effect, and thrown.
\<close>

theorem error_path_reply_publish_throw:
  fixes sv signer sender dat st
  defines "r \<equiv> processChannelMessage sv signer sender dat st"
      and "single \<equiv> length (signatures (commitment (dataUpdate dat))) = 1"
  shows
    "((\<exists>response. Save response \<in> set (effects r)
                  \<and> finalStore r = st(stateChannelAddress response \<mapsto> response))
      \<and> (\<forall>x. PostError x \<notin> set (effects r))
      \<and> (\<forall>e. Send sender (ErrorPayload e) \<notin> set (effects r))
      \<and> (\<forall>e. outcome r \<noteq> Raised e))
     \<or> (\<exists>e fx. finalStore r = st
           \<and> (\<forall>x. PostError x \<notin> set fx) \<and> (\<forall>p. Send sender p \<notin> set fx)
           \<and> (if single \<and> sendRejects sv sender (ErrorPayload e)
              then effects r = fx @ [Send sender (ErrorPayload e)]
                 \<and> outcome r = SendFailed (ErrorPayload e)
              else effects r = fx @ (if single then [Send sender (ErrorPayload e)] else [])
                                  @ [PostError (Some e)]
                 \<and> outcome r = Raised e))"
proof (cases rule: processChannelMessage_cases
    [where sv = sv and signer = signer and sender = sender and dat = dat and st = st])
  case (Rejected e)
  then have "finalStore r = st
           \<and> (\<forall>x. PostError x \<notin> set []) \<and> (\<forall>p. Send sender p \<notin> set [])
           \<and> (if single \<and> sendRejects sv sender (ErrorPayload e)
              then effects r = [] @ [Send sender (ErrorPayload e)]
                 \<and> outcome r = SendFailed (ErrorPayload e)
              else effects r = [] @ (if single then [Send sender (ErrorPayload e)] else [])
                                  @ [PostError (Some e)]
                 \<and> outcome r = Raised e)"
    by (simp add: r_def single_def handleError_def)
  then show ?thesis by blast
next
  case (SaveFailed storedState e response fx)
  then have "finalStore r = st
           \<and> (\<forall>x. PostError x \<notin> set fx) \<and> (\<forall>p. Send sender p \<notin> set fx)
           \<and> (if single \<and> sendRejects sv sender (ErrorPayload e)
              then effects r = fx @ [Send sender (ErrorPayload e)]
                 \<and> outcome r = SendFailed (ErrorPayload e)
              else effects r = fx @ (if single then [Send sender (ErrorPayload e)] else [])
                                  @ [PostError (Some e)]
                 \<and> outcome r = Raised e)"
    by (auto simp: r_def single_def handleError_def)
  then show ?thesis by blast
next
  case (Acked storedState previousState response reply)
  then have "(Save response \<in> set (effects r)
                  \<and> finalStore r = st(stateChannelAddress response \<mapsto> response))
      \<and> (\<forall>x. PostError x \<notin> set (effects r))
      \<and> (\<forall>e. Send sender (ErrorPayload e) \<notin> set (effects r))
      \<and> (\<forall>e. outcome r \<noteq> Raised e)"
    by (simp add: r_def)
  then show ?thesis by blast
next
  case (Finalized storedState previousState response)
  then have "(Save response \<in> set (effects r)
                  \<and> finalStore r = st(stateChannelAddress response \<mapsto> response))
      \<and> (\<forall>x. PostError x \<notin> set (effects r))
      \<and> (\<forall>e. Send sender (ErrorPayload e) \<notin> set (effects r))
      \<and> (\<forall>e. outcome r \<noteq> Raised e)"
    by (simp add: r_def)
  then show ?thesis by blast
qed

text \<open>
  Scenario B of the spec, with a single-signed update: the store is at nonce 5 and an
  update of nonce 5 arrives.
\<close>

lemma scenario_B:
  "processChannelMessage sv bob ''alice''
     \<lparr>dataUpdate = mkUpdate ''channelA'' 5 (Other ''deposit'') [''alice''],
      dataLatestUpdate = Some (mkUpdate ''channelA'' 4 (Other ''deposit'') [''alice'', ''bob''])\<rparr>
     (storeAt ''channelA'' 5)
   = (if assertSignatures sv \<lparr>signatures = [''alice''], commitmentHash = ''hash''\<rparr>
       \<and> assertSignatures sv \<lparr>signatures = [''alice'', ''bob''], commitmentHash = ''hash''\<rparr>
      then handleError sv ''alice'' (mkUpdate ''channelA'' 5 (Other ''deposit'') [''alice''])
       (channelUpdateError StaleUpdateNonce
          (Some (mkUpdate ''channelA'' 5 (Other ''deposit'') [''alice'']))
          (Some (mkState ''channelA'' 5))
          (Some \<lparr>ctxCounterpartyLatestUpdate =
                    Some (mkUpdate ''channelA'' 4 (Other ''deposit'') [''alice'', ''bob'']),
                  ctxRequestedUpdate = None\<rparr>))
       [] (storeAt ''channelA'' 5)
      else handleError sv ''alice'' (mkUpdate ''channelA'' 5 (Other ''deposit'') [''alice''])
       (channelUpdateError BadSignatures
          (Some (mkUpdate ''channelA'' 5 (Other ''deposit'') [''alice'']))
          (Some (mkState ''channelA'' 5))
          (Some \<lparr>ctxCounterpartyLatestUpdate =
                    Some (mkUpdate ''channelA'' 4 (Other ''deposit'') [''alice'', ''bob'']),
                  ctxRequestedUpdate = None\<rparr>))
       [] (storeAt ''channelA'' 5))"
  by (simp add: processChannelMessage_def loadStoredState_def getChannelState_def
        signaturesAsserted_def storeAt_def mkUpdate_def mkState_def Let_def)

text \<open>
  Claim C7 as stated fails where the reply cannot be sent: in scenario B on a transport
  whose sends reject, the error is sent to \<open>alice\<close> and the run ends with the rejection of
  that send. The error is neither published nor what leaves the handler.
\<close>

theorem error_not_published_when_reply_rejects:
  "length (signatures (commitment (mkUpdate ''channelA'' 5 (Other ''deposit'') [''alice'']))) = 1
   \<and> processChannelMessage offlineServices bob ''alice''
       \<lparr>dataUpdate = mkUpdate ''channelA'' 5 (Other ''deposit'') [''alice''],
        dataLatestUpdate =
          Some (mkUpdate ''channelA'' 4 (Other ''deposit'') [''alice'', ''bob''])\<rparr>
       (storeAt ''channelA'' 5)
     = \<lparr>outcome = SendFailed (ErrorPayload (channelUpdateError StaleUpdateNonce
          (Some (mkUpdate ''channelA'' 5 (Other ''deposit'') [''alice'']))
          (Some (mkState ''channelA'' 5))
          (Some \<lparr>ctxCounterpartyLatestUpdate =
                    Some (mkUpdate ''channelA'' 4 (Other ''deposit'') [''alice'', ''bob'']),
                  ctxRequestedUpdate = None\<rparr>))),
        effects = [Send ''alice'' (ErrorPayload (channelUpdateError StaleUpdateNonce
          (Some (mkUpdate ''channelA'' 5 (Other ''deposit'') [''alice'']))
          (Some (mkState ''channelA'' 5))
          (Some \<lparr>ctxCounterpartyLatestUpdate =
                    Some (mkUpdate ''channelA'' 4 (Other ''deposit'') [''alice'', ''bob'']),
                  ctxRequestedUpdate = None\<rparr>)))],
        finalStore = storeAt ''channelA'' 5\<rparr>"
  unfolding scenario_B
  by (simp add: offlineServices_def testServices_def handleError_def mkUpdate_def)

text \<open>Scenario B where sends succeed: the error is sent, published and thrown.\<close>

theorem error_path_reply_publish_throw_witness:
  "processChannelMessage testServices bob ''alice''
       \<lparr>dataUpdate = mkUpdate ''channelA'' 5 (Other ''deposit'') [''alice''],
        dataLatestUpdate =
          Some (mkUpdate ''channelA'' 4 (Other ''deposit'') [''alice'', ''bob''])\<rparr>
       (storeAt ''channelA'' 5)
     = \<lparr>outcome = Raised (channelUpdateError StaleUpdateNonce
          (Some (mkUpdate ''channelA'' 5 (Other ''deposit'') [''alice'']))
          (Some (mkState ''channelA'' 5))
          (Some \<lparr>ctxCounterpartyLatestUpdate =
                    Some (mkUpdate ''channelA'' 4 (Other ''deposit'') [''alice'', ''bob'']),
                  ctxRequestedUpdate = None\<rparr>)),
        effects = [Send ''alice'' (ErrorPayload (channelUpdateError StaleUpdateNonce
          (Some (mkUpdate ''channelA'' 5 (Other ''deposit'') [''alice'']))
          (Some (mkState ''channelA'' 5))
          (Some \<lparr>ctxCounterpartyLatestUpdate =
                    Some (mkUpdate ''channelA'' 4 (Other ''deposit'') [''alice'', ''bob'']),
                  ctxRequestedUpdate = None\<rparr>))),
                   PostError (Some (channelUpdateError StaleUpdateNonce
          (Some (mkUpdate ''channelA'' 5 (Other ''deposit'') [''alice'']))
          (Some (mkState ''channelA'' 5))
          (Some \<lparr>ctxCounterpartyLatestUpdate =
                    Some (mkUpdate ''channelA'' 4 (Other ''deposit'') [''alice'', ''bob'']),
                  ctxRequestedUpdate = None\<rparr>)))],
        finalStore = storeAt ''channelA'' 5\<rparr>"
proof -
  let ?dat = "\<lparr>dataUpdate = mkUpdate ''channelA'' 5 (Other ''deposit'') [''alice''],
        dataLatestUpdate =
          Some (mkUpdate ''channelA'' 4 (Other ''deposit'') [''alice'', ''bob''])\<rparr>"
  let ?r = "processChannelMessage testServices bob ''alice'' ?dat (storeAt ''channelA'' 5)"
  have stale: "?r = handleError testServices ''alice''
       (mkUpdate ''channelA'' 5 (Other ''deposit'') [''alice''])
       (channelUpdateError StaleUpdateNonce
          (Some (mkUpdate ''channelA'' 5 (Other ''deposit'') [''alice'']))
          (Some (mkState ''channelA'' 5))
          (Some \<lparr>ctxCounterpartyLatestUpdate =
                    Some (mkUpdate ''channelA'' 4 (Other ''deposit'') [''alice'', ''bob'']),
                  ctxRequestedUpdate = None\<rparr>))
       [] (storeAt ''channelA'' 5)"
    unfolding scenario_B by (simp add: testServices_def)
  have single: "length (signatures (commitment (dataUpdate ?dat))) = 1"
    by (simp add: mkUpdate_def)
  have posted: "PostError (Some (channelUpdateError StaleUpdateNonce
          (Some (mkUpdate ''channelA'' 5 (Other ''deposit'') [''alice'']))
          (Some (mkState ''channelA'' 5))
          (Some \<lparr>ctxCounterpartyLatestUpdate =
                    Some (mkUpdate ''channelA'' 4 (Other ''deposit'') [''alice'', ''bob'']),
                  ctxRequestedUpdate = None\<rparr>))) \<in> set (effects ?r)"
    unfolding stale by (simp add: handleError_def mkUpdate_def testServices_def)
  from error_path_reply_publish_throw
         [where sv = testServices and signer = bob and sender = "''alice''" and dat = ?dat
            and st = "storeAt ''channelA'' 5"] posted
  obtain e fx where
    "finalStore ?r = storeAt ''channelA'' 5"
    "if length (signatures (commitment (dataUpdate ?dat))) = 1
        \<and> sendRejects testServices ''alice'' (ErrorPayload e)
     then effects ?r = fx @ [Send ''alice'' (ErrorPayload e)]
        \<and> outcome ?r = SendFailed (ErrorPayload e)
     else effects ?r = fx @ (if length (signatures (commitment (dataUpdate ?dat))) = 1
                              then [Send ''alice'' (ErrorPayload e)] else [])
                         @ [PostError (Some e)]
        \<and> outcome ?r = Raised e"
    by blast
  then show ?thesis
    unfolding stale by (simp add: handleError_def mkUpdate_def testServices_def)
qed

subsection \<open>Updates at or below the stored nonce\<close>

text \<open>
  Claim C5, as amended. Let the message pass the signature check (so it carries a latest
  update), and let its nonce \<open>n\<close> and the nonce \<open>k\<close> of the stored state (the one in the
  store, or the empty one made for a setup update) satisfy \<open>n - k \<le> 0\<close>. Then the run is
  the error path, from no effect and the untouched store, of a \<^verbatim>\<open>StaleUpdateNonce\<close> error
  whose state is the stored state: the error carries the local party's latest update,
  where \<^verbatim>\<open>outbound\<close> reads it (\<^verbatim>\<open>result.state.latestUpdate\<close>); its context repeats the
  latest update of the message. The error is thrown, unless its send to the sender
  rejects. The store is unchanged and the only effects are that send and the publication
  of the error.
\<close>

theorem stale_update_nonce_rejected:
  assumes "loadStoredState signer st (dataUpdate dat) = Some storedState"
      and "signaturesAsserted sv (dataUpdate dat) (dataLatestUpdate dat)"
      and "nonce (dataUpdate dat) - latestNonce storedState \<le> 0"
  shows "(let e = channelUpdateError StaleUpdateNonce (Some (dataUpdate dat)) (Some storedState)
                    (Some \<lparr>ctxCounterpartyLatestUpdate = dataLatestUpdate dat,
                           ctxRequestedUpdate = None\<rparr>);
              r = processChannelMessage sv signer sender dat st
          in r = handleError sv sender (dataUpdate dat) e [] st
           \<and> (outcome r = Raised e \<or> outcome r = SendFailed (ErrorPayload e))
           \<and> errMessage e = StaleUpdateNonce
           \<and> map_option latestUpdate (errState e) = Some (latestUpdate storedState)
           \<and> finalStore r = st
           \<and> set (effects r) \<subseteq> {Send sender (ErrorPayload e), PostError (Some e)})"
proof -
  let ?e = "channelUpdateError StaleUpdateNonce (Some (dataUpdate dat)) (Some storedState)
                    (Some \<lparr>ctxCounterpartyLatestUpdate = dataLatestUpdate dat,
                           ctxRequestedUpdate = None\<rparr>)"
  have run: "processChannelMessage sv signer sender dat st
               = handleError sv sender (dataUpdate dat) ?e [] st"
    using assms by (simp add: processChannelMessage_def Let_def)
  have carried: "errMessage ?e = StaleUpdateNonce"
    "map_option latestUpdate (errState ?e) = Some (latestUpdate storedState)"
    by (simp_all add: channelUpdateError_def)
  show ?thesis
    unfolding Let_def run using carried
    by (auto simp: handleError_outcome_eq handleError_effects)
qed

text \<open>
  Claim C5 as stated covers every message with \<open>n - k \<le> 0\<close> and has the handler fail with
  \<^verbatim>\<open>StaleUpdateNonce\<close>. The signature check comes first: an update of nonce 5 with a forged
  signature, against the store at nonce 5, fails with \<^verbatim>\<open>BadSignatures\<close>. And where the
  reply cannot be sent, a correctly signed update of nonce 5 makes the handler fail with
  the rejection of that send.
\<close>

theorem stale_nonce_with_forged_signature:
  "nonce (mkUpdate ''channelA'' 5 (Other ''deposit'') [''forged''])
     - latestNonce (mkState ''channelA'' 5) \<le> 0
   \<and> outcome (processChannelMessage testServices bob ''alice''
       \<lparr>dataUpdate = mkUpdate ''channelA'' 5 (Other ''deposit'') [''forged''],
        dataLatestUpdate =
          Some (mkUpdate ''channelA'' 4 (Other ''deposit'') [''alice'', ''bob''])\<rparr>
       (storeAt ''channelA'' 5))
     = Raised (channelUpdateError BadSignatures
          (Some (mkUpdate ''channelA'' 5 (Other ''deposit'') [''forged'']))
          (Some (mkState ''channelA'' 5))
          (Some \<lparr>ctxCounterpartyLatestUpdate =
                    Some (mkUpdate ''channelA'' 4 (Other ''deposit'') [''alice'', ''bob'']),
                  ctxRequestedUpdate = None\<rparr>))
   \<and> errMessage (channelUpdateError BadSignatures
          (Some (mkUpdate ''channelA'' 5 (Other ''deposit'') [''forged'']))
          (Some (mkState ''channelA'' 5))
          (Some \<lparr>ctxCounterpartyLatestUpdate =
                    Some (mkUpdate ''channelA'' 4 (Other ''deposit'') [''alice'', ''bob'']),
                  ctxRequestedUpdate = None\<rparr>)) \<noteq> StaleUpdateNonce
   \<and> nonce (mkUpdate ''channelA'' 5 (Other ''deposit'') [''alice''])
     - latestNonce (mkState ''channelA'' 5) \<le> 0
   \<and> outcome (processChannelMessage offlineServices bob ''alice''
       \<lparr>dataUpdate = mkUpdate ''channelA'' 5 (Other ''deposit'') [''alice''],
        dataLatestUpdate =
          Some (mkUpdate ''channelA'' 4 (Other ''deposit'') [''alice'', ''bob''])\<rparr>
       (storeAt ''channelA'' 5))
     = SendFailed (ErrorPayload (channelUpdateError StaleUpdateNonce
          (Some (mkUpdate ''channelA'' 5 (Other ''deposit'') [''alice'']))
          (Some (mkState ''channelA'' 5))
          (Some \<lparr>ctxCounterpartyLatestUpdate =
                    Some (mkUpdate ''channelA'' 4 (Other ''deposit'') [''alice'', ''bob'']),
                  ctxRequestedUpdate = None\<rparr>)))"
  by (simp add: processChannelMessage_def loadStoredState_def getChannelState_def
        signaturesAsserted_def storeAt_def mkUpdate_def mkState_def Let_def
        testServices_def offlineServices_def handleError_def channelUpdateError_def)

text \<open>
  A replay: the store at nonce 5 holds the dual-signed update of nonce 5 as its latest
  update, and that update arrives again.
\<close>

theorem stale_update_nonce_rejected_witness:
  "loadStoredState bob (storeAt ''channelA'' 5)
     (mkUpdate ''channelA'' 5 (Other ''deposit'') [''alice'', ''bob'']) = Some (mkState ''channelA'' 5)
   \<and> latestUpdate (mkState ''channelA'' 5)
       = Some (mkUpdate ''channelA'' 5 (Other ''deposit'') [''alice'', ''bob''])
   \<and> processChannelMessage testServices bob ''alice''
       \<lparr>dataUpdate = mkUpdate ''channelA'' 5 (Other ''deposit'') [''alice'', ''bob''],
        dataLatestUpdate =
          Some (mkUpdate ''channelA'' 4 (Other ''deposit'') [''alice'', ''bob''])\<rparr>
       (storeAt ''channelA'' 5)
     = \<lparr>outcome = Raised (channelUpdateError StaleUpdateNonce
          (Some (mkUpdate ''channelA'' 5 (Other ''deposit'') [''alice'', ''bob'']))
          (Some (mkState ''channelA'' 5))
          (Some \<lparr>ctxCounterpartyLatestUpdate =
                    Some (mkUpdate ''channelA'' 4 (Other ''deposit'') [''alice'', ''bob'']),
                  ctxRequestedUpdate = None\<rparr>)),
        effects = [PostError (Some (channelUpdateError StaleUpdateNonce
          (Some (mkUpdate ''channelA'' 5 (Other ''deposit'') [''alice'', ''bob'']))
          (Some (mkState ''channelA'' 5))
          (Some \<lparr>ctxCounterpartyLatestUpdate =
                    Some (mkUpdate ''channelA'' 4 (Other ''deposit'') [''alice'', ''bob'']),
                  ctxRequestedUpdate = None\<rparr>)))],
        finalStore = storeAt ''channelA'' 5\<rparr>"
proof -
  let ?dat = "\<lparr>dataUpdate = mkUpdate ''channelA'' 5 (Other ''deposit'') [''alice'', ''bob''],
        dataLatestUpdate =
          Some (mkUpdate ''channelA'' 4 (Other ''deposit'') [''alice'', ''bob''])\<rparr>"
  have stored: "loadStoredState bob (storeAt ''channelA'' 5) (dataUpdate ?dat)
                  = Some (mkState ''channelA'' 5)"
    by (simp add: loadStoredState_def getChannelState_def storeAt_def mkUpdate_def)
  have sigs: "signaturesAsserted testServices (dataUpdate ?dat) (dataLatestUpdate ?dat)"
    by (simp add: signaturesAsserted_def testServices_def mkUpdate_def)
  have diff: "nonce (dataUpdate ?dat) - latestNonce (mkState ''channelA'' 5) \<le> 0"
    by (simp add: mkUpdate_def mkState_def)
  from stale_update_nonce_rejected [OF stored sigs diff, of "''alice''"] stored
  show ?thesis
    by (simp add: Let_def handleError_def mkUpdate_def mkState_def)
qed

subsection \<open>The first update of a channel\<close>

text \<open>
  A save is attempted only for a nonce 1 or 2 above the stored one; a run that completes
  has saved; a run without a save leaves the store as it was.
\<close>

lemma save_attempted_nonce_ahead:
  assumes "Save s \<in> set (effects (processChannelMessage sv signer sender dat st))"
  obtains storedState where
    "loadStoredState signer st (dataUpdate dat) = Some storedState"
    "0 < nonce (dataUpdate dat) - latestNonce storedState"
    "nonce (dataUpdate dat) - latestNonce storedState < 3"
proof (cases rule: processChannelMessage_cases
    [where sv = sv and signer = signer and sender = sender and dat = dat and st = st])
  case (Rejected e)
  with assms show ?thesis
    by (auto simp: handleError_effects split: if_splits)
next
  case (SaveFailed storedState e response fx)
  then show ?thesis
    by (intro that [of storedState])
next
  case (Acked storedState previousState response reply)
  then show ?thesis
    by (intro that [of storedState])
next
  case (Finalized storedState previousState response)
  then show ?thesis
    by (intro that [of storedState])
qed

lemma completed_saved:
  assumes "outcome (processChannelMessage sv signer sender dat st) = Completed"
  shows "\<exists>s. Save s \<in> set (effects (processChannelMessage sv signer sender dat st))"
proof (cases rule: processChannelMessage_cases
    [where sv = sv and signer = signer and sender = sender and dat = dat and st = st])
  case (Rejected e)
  with assms show ?thesis
    by (simp add: handleError_outcome_eq split: if_splits)
next
  case (SaveFailed storedState e response fx)
  with assms show ?thesis
    by (simp add: handleError_outcome_eq split: if_splits)
next
  case (Acked storedState previousState response reply)
  then show ?thesis
    by auto
next
  case (Finalized storedState previousState response)
  then show ?thesis
    by auto
qed

lemma unsaved_store_unchanged:
  assumes "\<forall>s. Save s \<notin> set (effects (processChannelMessage sv signer sender dat st))"
  shows "finalStore (processChannelMessage sv signer sender dat st) = st"
proof (cases rule: processChannelMessage_cases
    [where sv = sv and signer = signer and sender = sender and dat = dat and st = st])
  case (Rejected e)
  then show ?thesis by simp
next
  case (SaveFailed storedState e response fx)
  then show ?thesis by simp
next
  case (Acked storedState previousState response reply)
  with assms show ?thesis by simp
next
  case (Finalized storedState previousState response)
  with assms show ?thesis by simp
qed

text \<open>
  Claim C10, as amended. For a setup update of a channel that the store does not know,
  the handler works on an empty state with latest nonce 0 and no latest update. If the
  update has nonce 0 and the message passes the signature check, the run is the error
  path of a \<^verbatim>\<open>StaleUpdateNonce\<close> error that carries this empty state. Whatever the
  signatures, an update of nonce 0 (or below) is not accepted: nothing is saved, the store
  is unchanged and the handler does not complete. A save is attempted only for a nonce of
  at least 1.
\<close>

theorem setup_nonce_zero_rejected:
  assumes "getChannelState st (channelAddress (dataUpdate dat)) = None"
      and "updateType (dataUpdate dat) = Setup"
  shows "(let ru = dataUpdate dat;
              r = processChannelMessage sv signer sender dat st;
              empty = emptyChannel signer ru
          in loadStoredState signer st ru = Some empty
           \<and> latestNonce empty = 0 \<and> latestUpdate empty = None
           \<and> (nonce ru = 0 \<and> signaturesAsserted sv ru (dataLatestUpdate dat) \<longrightarrow>
                r = handleError sv sender ru
                      (channelUpdateError StaleUpdateNonce (Some ru) (Some empty)
                         (Some \<lparr>ctxCounterpartyLatestUpdate = dataLatestUpdate dat,
                                ctxRequestedUpdate = None\<rparr>)) [] st)
           \<and> (nonce ru \<le> 0 \<longrightarrow>
                finalStore r = st \<and> (\<forall>s. Save s \<notin> set (effects r))
                \<and> outcome r \<noteq> Completed)
           \<and> ((\<exists>s. Save s \<in> set (effects r)) \<longrightarrow> 1 \<le> nonce ru))"
proof -
  let ?ru = "dataUpdate dat"
  let ?r = "processChannelMessage sv signer sender dat st"
  let ?empty = "emptyChannel signer ?ru"
  have loaded: "loadStoredState signer st ?ru = Some ?empty"
    using assms by (simp add: loadStoredState_def)
  have empty: "latestNonce ?empty = 0" "latestUpdate ?empty = None"
    by (simp_all add: emptyChannel_def)
  have stale: "nonce ?ru = 0 \<and> signaturesAsserted sv ?ru (dataLatestUpdate dat) \<longrightarrow>
      ?r = handleError sv sender ?ru
             (channelUpdateError StaleUpdateNonce (Some ?ru) (Some ?empty)
                (Some \<lparr>ctxCounterpartyLatestUpdate = dataLatestUpdate dat,
                       ctxRequestedUpdate = None\<rparr>)) [] st"
    using loaded empty by (simp add: processChannelMessage_def Let_def)
  have ahead: "1 \<le> nonce ?ru" if "Save s \<in> set (effects ?r)" for s
    using that loaded empty by (auto elim!: save_attempted_nonce_ahead)
  then have unsaved: "\<forall>s. Save s \<notin> set (effects ?r)" if "nonce ?ru \<le> 0"
    using that by fastforce
  have rejected: "finalStore ?r = st \<and> (\<forall>s. Save s \<notin> set (effects ?r)) \<and> outcome ?r \<noteq> Completed"
    if "nonce ?ru \<le> 0"
    using unsaved [OF that] unsaved_store_unchanged [of sv signer sender dat st]
      completed_saved [of sv signer sender dat st]
    by blast
  show ?thesis
    unfolding Let_def using loaded empty stale ahead rejected by blast
qed

text \<open>
  Claim C10 as stated covers every setup update of nonce 0 for an unknown channel. The
  signature check comes before the nonces are compared: with a forged signature the
  update is rejected with \<^verbatim>\<open>BadSignatures\<close>.
\<close>

theorem setup_nonce_zero_forged_signature:
  "getChannelState Map.empty (channelAddress (mkUpdate ''channelN'' 0 Setup [''forged''])) = None
   \<and> outcome (processChannelMessage testServices bob ''alice''
       \<lparr>dataUpdate = mkUpdate ''channelN'' 0 Setup [''forged''],
        dataLatestUpdate = Some (mkUpdate ''channelN'' 0 Setup [''alice''])\<rparr>
       Map.empty)
     = Raised (channelUpdateError BadSignatures
          (Some (mkUpdate ''channelN'' 0 Setup [''forged'']))
          (Some (emptyChannel bob (mkUpdate ''channelN'' 0 Setup [''forged''])))
          (Some \<lparr>ctxCounterpartyLatestUpdate = Some (mkUpdate ''channelN'' 0 Setup [''alice'']),
                  ctxRequestedUpdate = None\<rparr>))
   \<and> errMessage (channelUpdateError BadSignatures
          (Some (mkUpdate ''channelN'' 0 Setup [''forged'']))
          (Some (emptyChannel bob (mkUpdate ''channelN'' 0 Setup [''forged''])))
          (Some \<lparr>ctxCounterpartyLatestUpdate = Some (mkUpdate ''channelN'' 0 Setup [''alice'']),
                  ctxRequestedUpdate = None\<rparr>)) \<noteq> StaleUpdateNonce"
  by (simp add: processChannelMessage_def loadStoredState_def getChannelState_def
        signaturesAsserted_def mkUpdate_def Let_def testServices_def handleError_def
        channelUpdateError_def)

text \<open>
  A correctly signed setup update of nonce 0 for a channel that \<open>bob\<close> does not know is
  rejected; one of nonce 1 is saved.
\<close>

theorem setup_nonce_zero_rejected_witness:
  "getChannelState Map.empty (channelAddress (mkUpdate ''channelN'' 0 Setup [''alice''])) = None
   \<and> updateType (mkUpdate ''channelN'' 0 Setup [''alice'']) = Setup
   \<and> latestNonce (emptyChannel bob (mkUpdate ''channelN'' 0 Setup [''alice''])) = 0
   \<and> processChannelMessage testServices bob ''alice''
       \<lparr>dataUpdate = mkUpdate ''channelN'' 0 Setup [''alice''],
        dataLatestUpdate = Some (mkUpdate ''channelN'' 0 Setup [''alice''])\<rparr>
       Map.empty
     = \<lparr>outcome = Raised (channelUpdateError StaleUpdateNonce
          (Some (mkUpdate ''channelN'' 0 Setup [''alice'']))
          (Some (emptyChannel bob (mkUpdate ''channelN'' 0 Setup [''alice''])))
          (Some \<lparr>ctxCounterpartyLatestUpdate = Some (mkUpdate ''channelN'' 0 Setup [''alice'']),
                  ctxRequestedUpdate = None\<rparr>)),
        effects = [Send ''alice'' (ErrorPayload (channelUpdateError StaleUpdateNonce
          (Some (mkUpdate ''channelN'' 0 Setup [''alice'']))
          (Some (emptyChannel bob (mkUpdate ''channelN'' 0 Setup [''alice''])))
          (Some \<lparr>ctxCounterpartyLatestUpdate = Some (mkUpdate ''channelN'' 0 Setup [''alice'']),
                  ctxRequestedUpdate = None\<rparr>))),
                   PostError (Some (channelUpdateError StaleUpdateNonce
          (Some (mkUpdate ''channelN'' 0 Setup [''alice'']))
          (Some (emptyChannel bob (mkUpdate ''channelN'' 0 Setup [''alice''])))
          (Some \<lparr>ctxCounterpartyLatestUpdate = Some (mkUpdate ''channelN'' 0 Setup [''alice'']),
                  ctxRequestedUpdate = None\<rparr>)))],
        finalStore = Map.empty\<rparr>
   \<and> Save ((emptyChannel bob (mkUpdate ''channelN'' 1 Setup [''alice'']))
             \<lparr>latestNonce := 1,
              latestUpdate := Some (mkUpdate ''channelN'' 1 Setup [''alice''])\<rparr>)
       \<in> set (effects (processChannelMessage testServices bob ''alice''
                \<lparr>dataUpdate = mkUpdate ''channelN'' 1 Setup [''alice''],
                 dataLatestUpdate = Some (mkUpdate ''channelN'' 0 Setup [''alice''])\<rparr>
                Map.empty))
   \<and> 1 \<le> nonce (mkUpdate ''channelN'' 1 Setup [''alice''])"
proof -
  let ?dat = "\<lparr>dataUpdate = mkUpdate ''channelN'' 0 Setup [''alice''],
        dataLatestUpdate = Some (mkUpdate ''channelN'' 0 Setup [''alice''])\<rparr>"
  have unknown: "getChannelState Map.empty (channelAddress (dataUpdate ?dat)) = None"
    by (simp add: getChannelState_def)
  have first: "updateType (dataUpdate ?dat) = Setup"
    by (simp add: mkUpdate_def)
  have zero: "nonce (dataUpdate ?dat) = 0
      \<and> signaturesAsserted testServices (dataUpdate ?dat) (dataLatestUpdate ?dat)"
    by (simp add: signaturesAsserted_def testServices_def mkUpdate_def)
  from setup_nonce_zero_rejected [OF unknown first, of testServices bob "''alice''"] zero
  have "processChannelMessage testServices bob ''alice'' ?dat Map.empty
      = handleError testServices ''alice'' (dataUpdate ?dat)
          (channelUpdateError StaleUpdateNonce (Some (dataUpdate ?dat))
             (Some (emptyChannel bob (dataUpdate ?dat)))
             (Some \<lparr>ctxCounterpartyLatestUpdate = dataLatestUpdate ?dat,
                    ctxRequestedUpdate = None\<rparr>)) [] Map.empty"
    unfolding Let_def by blast
  then have rejected: "processChannelMessage testServices bob ''alice'' ?dat Map.empty
      = \<lparr>outcome = Raised (channelUpdateError StaleUpdateNonce
          (Some (mkUpdate ''channelN'' 0 Setup [''alice'']))
          (Some (emptyChannel bob (mkUpdate ''channelN'' 0 Setup [''alice''])))
          (Some \<lparr>ctxCounterpartyLatestUpdate = Some (mkUpdate ''channelN'' 0 Setup [''alice'']),
                  ctxRequestedUpdate = None\<rparr>)),
        effects = [Send ''alice'' (ErrorPayload (channelUpdateError StaleUpdateNonce
          (Some (mkUpdate ''channelN'' 0 Setup [''alice'']))
          (Some (emptyChannel bob (mkUpdate ''channelN'' 0 Setup [''alice''])))
          (Some \<lparr>ctxCounterpartyLatestUpdate = Some (mkUpdate ''channelN'' 0 Setup [''alice'']),
                  ctxRequestedUpdate = None\<rparr>))),
                   PostError (Some (channelUpdateError StaleUpdateNonce
          (Some (mkUpdate ''channelN'' 0 Setup [''alice'']))
          (Some (emptyChannel bob (mkUpdate ''channelN'' 0 Setup [''alice''])))
          (Some \<lparr>ctxCounterpartyLatestUpdate = Some (mkUpdate ''channelN'' 0 Setup [''alice'']),
                  ctxRequestedUpdate = None\<rparr>)))],
        finalStore = Map.empty\<rparr>"
    by (simp add: handleError_def mkUpdate_def testServices_def)
  let ?dat1 = "\<lparr>dataUpdate = mkUpdate ''channelN'' 1 Setup [''alice''],
        dataLatestUpdate = Some (mkUpdate ''channelN'' 0 Setup [''alice''])\<rparr>"
  let ?saved = "(emptyChannel bob (mkUpdate ''channelN'' 1 Setup [''alice'']))
             \<lparr>latestNonce := 1,
              latestUpdate := Some (mkUpdate ''channelN'' 1 Setup [''alice''])\<rparr>"
  have unknown1: "getChannelState Map.empty (channelAddress (dataUpdate ?dat1)) = None"
    by (simp add: getChannelState_def)
  have first1: "updateType (dataUpdate ?dat1) = Setup"
    by (simp add: mkUpdate_def)
  have saved: "Save ?saved
      \<in> set (effects (processChannelMessage testServices bob ''alice'' ?dat1 Map.empty))"
    by (simp add: processChannelMessage_def loadStoredState_def getChannelState_def
          signaturesAsserted_def syncPreviousState_def saveChannelState_def applyNext_def
          emptyChannel_def testServices_def mkUpdate_def Let_def)
  from setup_nonce_zero_rejected [OF unknown1 first1, of testServices bob "''alice''"] saved
  have "1 \<le> nonce (dataUpdate ?dat1)"
    unfolding Let_def by blast
  with rejected saved show ?thesis
    by (simp add: getChannelState_def emptyChannel_def mkUpdate_def)
qed

subsection \<open>Acknowledging a proposal\<close>

text \<open>
  When a single-signed update passes every check and the save does not reject, the
  handler signs the commitment's hash, saves \<^verbatim>\<open>response\<close>, the state that \<^verbatim>\<open>applyUpdate\<close> made
  of the update as it was received, and sends the update with the countersigned
  commitment, with the latest update of \<^verbatim>\<open>response\<close>, to the sender. Nothing is published.
  The countersigned commitment is in the reply only.
\<close>

lemma acked_run:
  assumes "loadStoredState signer st (dataUpdate dat) = Some storedState"
      and "signaturesAsserted sv (dataUpdate dat) (dataLatestUpdate dat)"
      and "0 < nonce (dataUpdate dat) - latestNonce storedState"
      and "nonce (dataUpdate dat) - latestNonce storedState < 3"
      and "syncPreviousState sv (dataUpdate dat) (dataLatestUpdate dat) storedState
             (nonce (dataUpdate dat) - latestNonce storedState) = Inr previousState"
      and "applyUpdate sv (dataUpdate dat) previousState = Some response"
      and "length (signatures (commitment (dataUpdate dat))) = 1"
      and "\<not> saveRejects sv response"
  shows "processChannelMessage sv signer sender dat st =
     \<lparr>outcome =
        (if sendRejects sv sender
              (ChannelPayload
                 ((dataUpdate dat)\<lparr>commitment :=
                     addSignature (commitment (dataUpdate dat))
                       (signMessage signer (getHash (commitment (dataUpdate dat))))\<rparr>)
                 (latestUpdate response))
         then SendFailed
              (ChannelPayload
                 ((dataUpdate dat)\<lparr>commitment :=
                     addSignature (commitment (dataUpdate dat))
                       (signMessage signer (getHash (commitment (dataUpdate dat))))\<rparr>)
                 (latestUpdate response))
         else Completed),
      effects =
        [Sign (getHash (commitment (dataUpdate dat))), Save response,
         Send sender
           (ChannelPayload
              ((dataUpdate dat)\<lparr>commitment :=
                  addSignature (commitment (dataUpdate dat))
                    (signMessage signer (getHash (commitment (dataUpdate dat))))\<rparr>)
              (latestUpdate response))],
      finalStore = st(stateChannelAddress response \<mapsto> response)\<rparr>"
  using assms
  by (simp add: processChannelMessage_def Let_def saveChannelState_def)

text \<open>
  Claim C3 says that the persisted state's latest update is dual-signed. Scenario A of the
  spec: the store is at nonce 5 and a single-signed update of nonce 6 arrives, where
  applying an update records it as the state's latest update. The reply carries two
  signatures; the state saved, and in the store afterwards, has the update with the one
  signature it came with.
\<close>

theorem acked_state_is_single_signed:
  "processChannelMessage testServices bob ''alice''
     \<lparr>dataUpdate = mkUpdate ''channelA'' 6 (Other ''deposit'') [''alice''],
      dataLatestUpdate = Some (mkUpdate ''channelA'' 5 (Other ''deposit'') [''alice'', ''bob''])\<rparr>
     (storeAt ''channelA'' 5)
   = \<lparr>outcome = Completed,
      effects =
        [Sign ''hash'',
         Save ((mkState ''channelA'' 5)
                 \<lparr>latestNonce := 6,
                  latestUpdate := Some (mkUpdate ''channelA'' 6 (Other ''deposit'') [''alice''])\<rparr>),
         Send ''alice''
           (ChannelPayload
              (mkUpdate ''channelA'' 6 (Other ''deposit'') [''alice'', ''bob signs hash''])
              (Some (mkUpdate ''channelA'' 6 (Other ''deposit'') [''alice''])))],
      finalStore =
        [''channelA'' \<mapsto>
           (mkState ''channelA'' 5)
             \<lparr>latestNonce := 6,
              latestUpdate := Some (mkUpdate ''channelA'' 6 (Other ''deposit'') [''alice''])\<rparr>]\<rparr>
   \<and> map_option (\<lambda>u. length (signatures (commitment u)))
        (latestUpdate ((mkState ''channelA'' 5)
             \<lparr>latestNonce := 6,
              latestUpdate := Some (mkUpdate ''channelA'' 6 (Other ''deposit'') [''alice''])\<rparr>))
     = Some 1"
  by (simp add: processChannelMessage_def loadStoredState_def getChannelState_def
        signaturesAsserted_def syncPreviousState_def saveChannelState_def applyNext_def
        addSignature_def getHash_def testServices_def bob_def storeAt_def mkUpdate_def
        mkState_def Let_def)

subsection \<open>Dispatch of an inbound message\<close>

text \<open>
  What \<^verbatim>\<open>handleError\<close> posts is the error it was given.
\<close>

lemma handleError_posted:
  "PostError x \<in> set (effects (handleError sv sender ru e fx st))
     \<Longrightarrow> x = Some e \<or> PostError x \<in> set fx"
  by (auto simp: handleError_def split: if_splits)

text \<open>
  Every error that \<^verbatim>\<open>processChannelMessage\<close> posts carries an update: no subscribed filter
  throws on it.
\<close>

lemma posted_error_has_update:
  assumes "PostError x \<in> set (effects (processChannelMessage sv signer sender dat st))"
  shows "\<exists>e u. x = Some e \<and> errUpdate e = Some u"
proof (cases "loadStoredState signer st (dataUpdate dat)")
  case None
  with assms show ?thesis
    by (auto simp: processChannelMessage_def Let_def channelUpdateError_def
             dest!: handleError_posted)
next
  case (Some storedState)
  note stored = Some
  show ?thesis
  proof (cases "dataLatestUpdate dat")
    case None
    from assms show ?thesis
      unfolding absent_latest_update_is_bad_signatures [OF stored None]
      by (auto simp: channelUpdateError_def dest!: handleError_posted)
  next
    case (Some lu)
    with assms stored show ?thesis
      by (auto simp: processChannelMessage_def Let_def channelUpdateError_def
               split: if_splits sum.splits option.splits
               dest!: handleError_posted syncPreviousState_Inl(1))
  qed
qed




subsection \<open>Resynchronisation in the outbound driver\<close>

text \<open>A round of \<^verbatim>\<open>sendWithRetry\<close> saves nothing.\<close>

lemma sendWithRetry_loop_no_save:
  "sendWithRetry_loop k update sc attempts = (fx, res, rest) \<Longrightarrow> Save s \<notin> set fx"
proof (induction k arbitrary: attempts fx res rest)
  case 0
  then show ?case by simp
next
  case (Suc k)
  then show ?case
    by (auto simp: attemptSend_def split: option.splits settled.splits prod.splits)
qed

lemma sendWithRetry_no_save:
  "sendWithRetry update sc attempts = (fx, res, rest) \<Longrightarrow> Save s \<notin> set fx"
  unfolding sendWithRetry_def by (rule sendWithRetry_loop_no_save)

text \<open>
  The first round resolved by an error: with another reason than \<^verbatim>\<open>StaleUpdateNonce\<close> the
  call throws that reason at once; with \<^verbatim>\<open>StaleUpdateNonce\<close> and a state without latest
  update it throws \<^verbatim>\<open>StaleChannelNonceNoUpdate\<close>.
\<close>

lemma outbound_other_error:
  assumes "getChannelState st (channelAddress update) = Some storedChannel"
      and "sendWithRetry update storedChannel attempts
             = (fx, RoundResolved (Inl result), rest)"
      and "errMessage result \<noteq> StaleUpdateNonce"
  shows "outbound sv update st attempts =
           \<lparr>outcome = Threw (channelUpdateError (errMessage result) (Some update)
                               (Some storedChannel) None),
            effects = fx, finalStore = st\<rparr>"
  using assms by (simp add: outbound_def resync_def)

lemma outbound_stale_without_update:
  assumes "getChannelState st (channelAddress update) = Some storedChannel"
      and "sendWithRetry update storedChannel attempts
             = (fx, RoundResolved (Inl result), rest)"
      and "errMessage result = StaleUpdateNonce"
      and "errState result = Some resultState" "latestUpdate resultState = None"
  shows "outbound sv update st attempts =
           \<lparr>outcome = Threw (channelUpdateError StaleChannelNonceNoUpdate (Some update)
                               (Some storedChannel) None),
            effects = fx, finalStore = st\<rparr>"
  using assms by (simp add: outbound_def resync_def)

text \<open>
  Let the channel be stored, and let the first round be resolved by an error with reason
  \<^verbatim>\<open>StaleUpdateNonce\<close> whose state carries a latest update \<open>lu\<close>, the counterparty's.
  \<^item> If the nonce of \<open>lu\<close> differs from the nonce of the proposed update, the call throws
    \<^verbatim>\<open>StaleChannelNonce\<close>; nothing but the first round's sends has happened.
  \<^item> Otherwise \<open>lu\<close> is applied to the stored state. If that fails the call throws
    \<^verbatim>\<open>applyUpdateFailed\<close>. If the save of the new state rejects with a message that is not
    empty, it throws \<^verbatim>\<open>SaveChannelFailed\<close>. Otherwise (the save went through, or it
    rejected with the empty message and the store is as it was) the call makes one more
    round with the same update and the same stored channel, on the attempts that are
    left: the effects are those of the first round, the save, and those of that one
    round, neither round saves, and the call ends as the round does. A state is
    returned; an error is rethrown with its own reason, also when that reason is again
    \<^verbatim>\<open>StaleUpdateNonce\<close>; \<^verbatim>\<open>MessageFailed\<close> is thrown on; a pending round leaves the call
    pending.
\<close>

lemma outbound_resync_once:
  assumes stored: "getChannelState st (channelAddress update) = Some storedChannel"
      and first: "sendWithRetry update storedChannel attempts
                    = (fx, RoundResolved (Inl result), rest)"
      and stale: "errMessage result = StaleUpdateNonce"
      and attached: "errState result = Some resultState" "latestUpdate resultState = Some lu"
  shows "(let r = outbound sv update st attempts in
     (nonce lu \<noteq> nonce update \<longrightarrow>
        r = \<lparr>outcome = Threw (channelUpdateError StaleChannelNonce (Some update)
                               (Some storedChannel)
                               (Some \<lparr>ctxCounterpartyLatestUpdate = Some lu,
                                      ctxRequestedUpdate = None\<rparr>)),
             effects = fx, finalStore = st\<rparr>)
   \<and> (nonce lu = nonce update \<longrightarrow>
        (case applyUpdate sv lu storedChannel of
           None \<Rightarrow>
             r = \<lparr>outcome = Threw (channelUpdateError applyUpdateFailed (Some lu)
                                    (Some storedChannel) None),
                  effects = fx, finalStore = st\<rparr>
         | Some newState \<Rightarrow>
             if saveRejects sv newState \<and> saveErrorMessage sv newState \<noteq> [] then
               r = \<lparr>outcome = Threw (channelUpdateError SaveChannelFailed (Some lu)
                                      (Some storedChannel) None),
                    effects = fx @ [Save newState], finalStore = st\<rparr>
             else
              (case sendWithRetry update storedChannel rest of
                 (fx2, res, rest2) \<Rightarrow>
                   (\<forall>s. Save s \<notin> set fx) \<and> (\<forall>s. Save s \<notin> set fx2)
                 \<and> effects r = fx @ [Save newState] @ fx2
                 \<and> finalStore r = (if saveRejects sv newState then st
                                    else st(stateChannelAddress newState \<mapsto> newState))
                 \<and> outcome r =
                     (case res of
                        RoundResolved (Inr syncedResult) \<Rightarrow> Returned syncedResult
                      | RoundResolved (Inl syncedResult) \<Rightarrow>
                          Threw (channelUpdateError (errMessage syncedResult) (Some update)
                                   (Some newState) None)
                      | RoundThrew e \<Rightarrow> Threw e
                      | RoundPending \<Rightarrow> Pending)))))"
proof -
  let ?r = "outbound sv update st attempts"
  have r: "?r = resync sv update storedChannel result fx st rest"
    using stored first by (simp add: outbound_def)
  have differs: "nonce lu \<noteq> nonce update \<Longrightarrow>
        ?r = \<lparr>outcome = Threw (channelUpdateError StaleChannelNonce (Some update)
                               (Some storedChannel)
                               (Some \<lparr>ctxCounterpartyLatestUpdate = Some lu,
                                      ctxRequestedUpdate = None\<rparr>)),
             effects = fx, finalStore = st\<rparr>"
    unfolding r using stale attached by (simp add: resync_def)
  have same: "case applyUpdate sv lu storedChannel of
           None \<Rightarrow>
             ?r = \<lparr>outcome = Threw (channelUpdateError applyUpdateFailed (Some lu)
                                    (Some storedChannel) None),
                  effects = fx, finalStore = st\<rparr>
         | Some newState \<Rightarrow>
             if saveRejects sv newState \<and> saveErrorMessage sv newState \<noteq> [] then
               ?r = \<lparr>outcome = Threw (channelUpdateError SaveChannelFailed (Some lu)
                                      (Some storedChannel) None),
                    effects = fx @ [Save newState], finalStore = st\<rparr>
             else
              (case sendWithRetry update storedChannel rest of
                 (fx2, res, rest2) \<Rightarrow>
                   (\<forall>s. Save s \<notin> set fx) \<and> (\<forall>s. Save s \<notin> set fx2)
                 \<and> effects ?r = fx @ [Save newState] @ fx2
                 \<and> finalStore ?r = (if saveRejects sv newState then st
                                    else st(stateChannelAddress newState \<mapsto> newState))
                 \<and> outcome ?r =
                     (case res of
                        RoundResolved (Inr syncedResult) \<Rightarrow> Returned syncedResult
                      | RoundResolved (Inl syncedResult) \<Rightarrow>
                          Threw (channelUpdateError (errMessage syncedResult) (Some update)
                                   (Some newState) None)
                      | RoundThrew e \<Rightarrow> Threw e
                      | RoundPending \<Rightarrow> Pending))"
    if eq: "nonce lu = nonce update"
  proof (cases "applyUpdate sv lu storedChannel")
    case None
    then show ?thesis
      unfolding r using stale attached eq by (simp add: resync_def)
  next
    case (Some newState)
    show ?thesis
    proof (cases "saveRejects sv newState \<and> saveErrorMessage sv newState \<noteq> []")
      case True
      with Some show ?thesis
        unfolding r using stale attached eq by (simp add: resync_def saveChannelState_def)
    next
      case False
      obtain fx2 res rest2 where second:
        "sendWithRetry update storedChannel rest = (fx2, res, rest2)"
        by (cases "sendWithRetry update storedChannel rest")
      have nosave: "\<forall>s. Save s \<notin> set fx" "\<forall>s. Save s \<notin> set fx2"
        using sendWithRetry_no_save [OF first] sendWithRetry_no_save [OF second] by simp_all
      have "?r = syncedRound update storedChannel newState (fx @ [Save newState])
                   (if saveRejects sv newState then st
                    else st(stateChannelAddress newState \<mapsto> newState)) rest"
        unfolding r using stale attached eq Some False
        by (auto simp: resync_def saveChannelState_def)
      with Some False second nosave show ?thesis
        by (simp add: syncedRound_def split: roundResult.splits sum.splits)
    qed
  qed
  show ?thesis
    unfolding Let_def using differs same by blast
qed


text \<open>
  Claim C4 says that a failure to persist the resynced state fails the call with
  \<^verbatim>\<open>SaveChannelFailed\<close>. The channel is stored at nonce 5 and nonce 6 is proposed; the
  counterparty answers \<^verbatim>\<open>StaleUpdateNonce\<close> with its own update of nonce 6, which is
  applied; the save of the new state rejects with an \<^verbatim>\<open>Error\<close> whose message is empty.
  The call goes on as after a successful save: it sends the update once more, is
  answered \<^verbatim>\<open>StaleUpdateNonce\<close> again and throws that, with the store still at nonce 5.
\<close>

theorem resync_save_rejected_with_empty_message:
  "saveRejects silentStoreServices
     ((mkState ''channelA'' 5)
        \<lparr>latestNonce := 6,
         latestUpdate := Some (mkUpdate ''channelA'' 6 (Other ''resolve'') [''bob'', ''alice''])\<rparr>)
   \<and> outbound silentStoreServices (mkUpdate ''channelA'' 6 (Other ''deposit'') [''alice''])
        (storeAt ''channelA'' 5)
        [[ErrorEvent (channelUpdateError StaleUpdateNonce
           (Some (mkUpdate ''channelA'' 6 (Other ''deposit'') [''alice'']))
           (Some ((mkState ''channelA'' 5)
              \<lparr>latestNonce := 6,
               latestUpdate := Some (mkUpdate ''channelA'' 6 (Other ''resolve'') [''bob'', ''alice''])\<rparr>))
           None)],
         [ErrorEvent (channelUpdateError StaleUpdateNonce
           (Some (mkUpdate ''channelA'' 6 (Other ''deposit'') [''alice'']))
           (Some ((mkState ''channelA'' 5)
              \<lparr>latestNonce := 6,
               latestUpdate := Some (mkUpdate ''channelA'' 6 (Other ''resolve'') [''bob'', ''alice''])\<rparr>))
           None)]]
     = \<lparr>outcome = Threw (channelUpdateError StaleUpdateNonce
           (Some (mkUpdate ''channelA'' 6 (Other ''deposit'') [''alice'']))
           (Some ((mkState ''channelA'' 5)
              \<lparr>latestNonce := 6,
               latestUpdate := Some (mkUpdate ''channelA'' 6 (Other ''resolve'') [''bob'', ''alice''])\<rparr>))
           None),
        effects =
          [attemptSend (mkUpdate ''channelA'' 6 (Other ''deposit'') [''alice''])
             (mkState ''channelA'' 5),
           Save ((mkState ''channelA'' 5)
              \<lparr>latestNonce := 6,
               latestUpdate := Some (mkUpdate ''channelA'' 6 (Other ''resolve'') [''bob'', ''alice''])\<rparr>),
           attemptSend (mkUpdate ''channelA'' 6 (Other ''deposit'') [''alice''])
             (mkState ''channelA'' 5)],
        finalStore = storeAt ''channelA'' 5\<rparr>"
proof -
  let ?u = "mkUpdate ''channelA'' 6 (Other ''deposit'') [''alice'']"
  let ?s = "mkState ''channelA'' 5"
  let ?lu = "mkUpdate ''channelA'' 6 (Other ''resolve'') [''bob'', ''alice'']"
  let ?theirs = "?s\<lparr>latestNonce := 6, latestUpdate := Some ?lu\<rparr>"
  let ?e = "channelUpdateError StaleUpdateNonce (Some ?u) (Some ?theirs) None"
  have five: "(5::nat) = Suc (Suc (Suc (Suc (Suc 0))))"
    by simp
  have first: "sendWithRetry ?u ?s [[ErrorEvent ?e], [ErrorEvent ?e]]
                 = ([attemptSend ?u ?s], RoundResolved (Inl ?e), [[ErrorEvent ?e]])"
    unfolding sendWithRetry_def five
    by (simp add: errorEvtFilter_def channelUpdateError_def)
  have second: "sendWithRetry ?u ?s [[ErrorEvent ?e]]
                 = ([attemptSend ?u ?s], RoundResolved (Inl ?e), [])"
    unfolding sendWithRetry_def five
    by (simp add: errorEvtFilter_def channelUpdateError_def)
  have reason: "errMessage ?e = StaleUpdateNonce" "errState ?e = Some ?theirs"
    by (simp_all add: channelUpdateError_def)
  have applied: "applyUpdate silentStoreServices ?lu ?s = Some ?theirs"
    by (simp add: silentStoreServices_def testServices_def applyNext_def mkUpdate_def
          mkState_def)
  have rejected: "saveChannelState silentStoreServices ?theirs (storeAt ''channelA'' 5) = None"
    "saveErrorMessage silentStoreServices ?theirs = []"
    "saveRejects silentStoreServices ?theirs"
    by (simp_all add: saveChannelState_def silentStoreServices_def testServices_def)
  have stored: "getChannelState (storeAt ''channelA'' 5) (channelAddress ?u) = Some ?s"
    by (simp add: getChannelState_def storeAt_def mkUpdate_def)
  have same: "nonce ?lu = nonce ?u"
    by (simp add: mkUpdate_def)
  have "outbound silentStoreServices ?u (storeAt ''channelA'' 5)
          [[ErrorEvent ?e], [ErrorEvent ?e]]
        = syncedRound ?u ?s ?theirs [attemptSend ?u ?s, Save ?theirs]
            (storeAt ''channelA'' 5) [[ErrorEvent ?e]]"
    by (simp add: outbound_def stored first resync_def reason same applied rejected)
  then show ?thesis
    by (simp add: syncedRound_def second reason rejected)
qed

text \<open>
  The channel is stored at nonce 5 and nonce 6 is proposed. The counterparty answers
  \<^verbatim>\<open>StaleUpdateNonce\<close> with its own update of nonce 6, which is applied and saved. The one
  retry proposes nonce 6 again and is answered \<^verbatim>\<open>StaleUpdateNonce\<close> again: the call throws
  that, after one save and two sends. Had the counterparty answered with an update of
  nonce 9, the call would throw \<^verbatim>\<open>StaleChannelNonce\<close> after the one send.
\<close>

lemma outbound_resync_once_example:
  "getChannelState (storeAt ''channelA'' 5)
     (channelAddress (mkUpdate ''channelA'' 6 (Other ''deposit'') [''alice'']))
     = Some (mkState ''channelA'' 5)
   \<and> outcome (outbound testServices (mkUpdate ''channelA'' 6 (Other ''deposit'') [''alice''])
        (storeAt ''channelA'' 5)
        [[ErrorEvent (channelUpdateError StaleUpdateNonce
           (Some (mkUpdate ''channelA'' 6 (Other ''deposit'') [''alice'']))
           (Some ((mkState ''channelA'' 5)
              \<lparr>latestNonce := 6,
               latestUpdate := Some (mkUpdate ''channelA'' 6 (Other ''resolve'') [''bob'', ''alice''])\<rparr>))
           None)],
         [ErrorEvent (channelUpdateError StaleUpdateNonce
           (Some (mkUpdate ''channelA'' 6 (Other ''deposit'') [''alice'']))
           (Some ((mkState ''channelA'' 5)
              \<lparr>latestNonce := 6,
               latestUpdate := Some (mkUpdate ''channelA'' 6 (Other ''resolve'') [''bob'', ''alice''])\<rparr>))
           None)]])
     = Threw (channelUpdateError StaleUpdateNonce
           (Some (mkUpdate ''channelA'' 6 (Other ''deposit'') [''alice'']))
           (Some ((mkState ''channelA'' 5)
              \<lparr>latestNonce := 6,
               latestUpdate := Some (mkUpdate ''channelA'' 6 (Other ''resolve'') [''bob'', ''alice''])\<rparr>))
           None)
   \<and> effects (outbound testServices (mkUpdate ''channelA'' 6 (Other ''deposit'') [''alice''])
        (storeAt ''channelA'' 5)
        [[ErrorEvent (channelUpdateError StaleUpdateNonce
           (Some (mkUpdate ''channelA'' 6 (Other ''deposit'') [''alice'']))
           (Some ((mkState ''channelA'' 5)
              \<lparr>latestNonce := 6,
               latestUpdate := Some (mkUpdate ''channelA'' 6 (Other ''resolve'') [''bob'', ''alice''])\<rparr>))
           None)],
         [ErrorEvent (channelUpdateError StaleUpdateNonce
           (Some (mkUpdate ''channelA'' 6 (Other ''deposit'') [''alice'']))
           (Some ((mkState ''channelA'' 5)
              \<lparr>latestNonce := 6,
               latestUpdate := Some (mkUpdate ''channelA'' 6 (Other ''resolve'') [''bob'', ''alice''])\<rparr>))
           None)]])
     = [attemptSend (mkUpdate ''channelA'' 6 (Other ''deposit'') [''alice'']) (mkState ''channelA'' 5),
        Save ((mkState ''channelA'' 5)
              \<lparr>latestNonce := 6,
               latestUpdate := Some (mkUpdate ''channelA'' 6 (Other ''resolve'') [''bob'', ''alice''])\<rparr>),
        attemptSend (mkUpdate ''channelA'' 6 (Other ''deposit'') [''alice'']) (mkState ''channelA'' 5)]
   \<and> outbound testServices (mkUpdate ''channelA'' 6 (Other ''deposit'') [''alice''])
        (storeAt ''channelA'' 5)
        [[ErrorEvent (channelUpdateError StaleUpdateNonce
           (Some (mkUpdate ''channelA'' 6 (Other ''deposit'') [''alice'']))
           (Some (mkState ''channelA'' 9))
           None)]]
     = \<lparr>outcome = Threw (channelUpdateError StaleChannelNonce
           (Some (mkUpdate ''channelA'' 6 (Other ''deposit'') [''alice'']))
           (Some (mkState ''channelA'' 5))
           (Some \<lparr>ctxCounterpartyLatestUpdate =
                     Some (mkUpdate ''channelA'' 9 (Other ''deposit'') [''alice'', ''bob'']),
                   ctxRequestedUpdate = None\<rparr>)),
        effects = [attemptSend (mkUpdate ''channelA'' 6 (Other ''deposit'') [''alice''])
                     (mkState ''channelA'' 5)],
        finalStore = storeAt ''channelA'' 5\<rparr>"
proof -
  let ?u = "mkUpdate ''channelA'' 6 (Other ''deposit'') [''alice'']"
  let ?s = "mkState ''channelA'' 5"
  let ?lu = "mkUpdate ''channelA'' 6 (Other ''resolve'') [''bob'', ''alice'']"
  let ?theirs = "?s\<lparr>latestNonce := 6, latestUpdate := Some ?lu\<rparr>"
  let ?e = "channelUpdateError StaleUpdateNonce (Some ?u) (Some ?theirs) None"
  have five: "(5::nat) = Suc (Suc (Suc (Suc (Suc 0))))"
    by simp
  have stored: "getChannelState (storeAt ''channelA'' 5) (channelAddress ?u) = Some ?s"
    by (simp add: getChannelState_def storeAt_def mkUpdate_def)
  have first: "sendWithRetry ?u ?s [[ErrorEvent ?e], [ErrorEvent ?e]]
                 = ([attemptSend ?u ?s], RoundResolved (Inl ?e), [[ErrorEvent ?e]])"
    unfolding sendWithRetry_def five
    by (simp add: errorEvtFilter_def channelUpdateError_def)
  have second: "sendWithRetry ?u ?s [[ErrorEvent ?e]]
                 = ([attemptSend ?u ?s], RoundResolved (Inl ?e), [])"
    unfolding sendWithRetry_def five
    by (simp add: errorEvtFilter_def channelUpdateError_def)
  have stale: "errMessage ?e = StaleUpdateNonce"
    and attached: "errState ?e = Some ?theirs" "latestUpdate ?theirs = Some ?lu"
    by (simp_all add: channelUpdateError_def)
  have same: "nonce ?lu = nonce ?u"
    by (simp add: mkUpdate_def)
  have applied: "applyUpdate testServices ?lu ?s = Some ?theirs"
    by (simp add: testServices_def applyNext_def mkUpdate_def mkState_def)
  have saved: "\<not> saveRejects testServices ?theirs"
    by (simp add: testServices_def)
  from outbound_resync_once [OF stored first stale attached, of testServices]
  have resynced: "outcome (outbound testServices ?u (storeAt ''channelA'' 5)
                     [[ErrorEvent ?e], [ErrorEvent ?e]])
                   = Threw (channelUpdateError StaleUpdateNonce (Some ?u) (Some ?theirs) None)"
    "effects (outbound testServices ?u (storeAt ''channelA'' 5)
                     [[ErrorEvent ?e], [ErrorEvent ?e]])
       = [attemptSend ?u ?s, Save ?theirs, attemptSend ?u ?s]"
    unfolding Let_def using same
    by (simp_all add: applied saved second stale)
  let ?far = "mkUpdate ''channelA'' 9 (Other ''deposit'') [''alice'', ''bob'']"
  let ?e9 = "channelUpdateError StaleUpdateNonce (Some ?u) (Some (mkState ''channelA'' 9)) None"
  have first9: "sendWithRetry ?u ?s [[ErrorEvent ?e9]]
                 = ([attemptSend ?u ?s], RoundResolved (Inl ?e9), [])"
    unfolding sendWithRetry_def five
    by (simp add: errorEvtFilter_def channelUpdateError_def)
  have stale9: "errMessage ?e9 = StaleUpdateNonce"
    and attached9: "errState ?e9 = Some (mkState ''channelA'' 9)"
      "latestUpdate (mkState ''channelA'' 9) = Some ?far"
    by (simp_all add: channelUpdateError_def mkState_def)
  have differs: "nonce ?far \<noteq> nonce ?u"
    by (simp add: mkUpdate_def)
  from outbound_resync_once [OF stored first9 stale9 attached9, of testServices] differs
  have gap: "outbound testServices ?u (storeAt ''channelA'' 5) [[ErrorEvent ?e9]]
     = \<lparr>outcome = Threw (channelUpdateError StaleChannelNonce (Some ?u) (Some ?s)
                           (Some \<lparr>ctxCounterpartyLatestUpdate = Some ?far,
                                  ctxRequestedUpdate = None\<rparr>)),
        effects = [attemptSend ?u ?s], finalStore = storeAt ''channelA'' 5\<rparr>"
    unfolding Let_def by blast
  from stored resynced gap show ?thesis
    by simp
qed

end
